theory Spec2Isabelle
  imports Complex_Main
begin

section \<open>The ball maze of js/script.js\<close>

text \<open>
  A shallow embedding of the physics and game-state code of \<^verbatim>\<open>js/script.js\<close>.

  Numbers. A JavaScript number is modelled as a real: rounding and overflow of IEEE
  doubles are not modelled, and the sign of a zero is not modelled (a zero is \<open>+0\<close>).
  The one operation of the script that leaves the finite numbers on finite inputs is
  the quotient inside \<^verbatim>\<open>getAngle\<close>, whose divisor can be zero; its results
  \<^verbatim>\<open>Infinity\<close>, \<^verbatim>\<open>-Infinity\<close> and \<^verbatim>\<open>NaN\<close> are values of the type
  \<open>quotient\<close> below. A \<^verbatim>\<open>NaN\<close> that reaches a ball is modelled by \<open>None\<close>: every
  arithmetic operation of the script returns \<^verbatim>\<open>NaN\<close> on a \<^verbatim>\<open>NaN\<close> argument and
  every comparison with \<^verbatim>\<open>NaN\<close> is false, so such a ball has \<^verbatim>\<open>NaN\<close> in all its
  fields when the tick that produced it ends, and in every later tick.

  Effects. The DOM (the note text, the ball and wall elements, the maze rotation) is
  not modelled. The global variables are the fields of the record \<open>state\<close>; each
  handler takes the state and returns the new one, together with the information
  whether it called \<^verbatim>\<open>window.requestAnimationFrame(main)\<close>.
\<close>

subsection \<open>Constants and data\<close>

definition pathWidth :: real where
  "pathWidth = 30"

definition wallWidth :: real where
  "wallWidth = 10"

definition ballSize :: real where
  "ballSize = 10"

text \<open>An object with the properties \<^verbatim>\<open>x\<close> and \<^verbatim>\<open>y\<close>.\<close>

record point =
  ptX :: real
  ptY :: real

text \<open>
  A ball as \<^verbatim>\<open>resetGame\<close> creates it, and as \<^verbatim>\<open>rollAroundCap\<close> receives it:
  \<^verbatim>\<open>{x, y, velocityX, velocityY}\<close>.
\<close>

record ball =
  ballX :: real
  ballY :: real
  velocityX :: real
  velocityY :: real

text \<open>
  A ball during the collision pass of one tick, with the properties \<^verbatim>\<open>nextX\<close> and
  \<^verbatim>\<open>nextY\<close> that \<^verbatim>\<open>main\<close> assigns before it reads them.
\<close>

record moving = ball +
  nextX :: real
  nextY :: real

text \<open>A wall in pixels: \<^verbatim>\<open>{x, y, horizontal, length}\<close>.\<close>

record wall =
  wallX :: real
  wallY :: real
  horizontal :: bool
  wallLength :: real

text \<open>A wall of the layout table, in grid units: \<^verbatim>\<open>{column, row, horizontal, length}\<close>.\<close>

record gridWall =
  column :: real
  row :: real
  isHorizontal :: bool
  cells :: real

text \<open>
  The four globals \<^verbatim>\<open>accelerationX\<close>, \<^verbatim>\<open>accelerationY\<close>, \<^verbatim>\<open>frictionX\<close>,
  \<^verbatim>\<open>frictionY\<close>. The script assigns them together, in \<^verbatim>\<open>handleDeviceOrientation\<close>
  (numbers) and in \<^verbatim>\<open>resetGame\<close> (\<^verbatim>\<open>undefined\<close>), so the state holds either all
  four or none.
\<close>

record tilt =
  accelerationX :: real
  accelerationY :: real
  frictionX :: real
  frictionY :: real

record state =
  previousTimestamp :: "real option"
  gameInProgress :: bool
  tiltReading :: "tilt option"
  balls :: "ball option list"

subsection \<open>Geometry utilities\<close>

definition Math_minmax :: "real \<Rightarrow> real \<Rightarrow> real" where
  "Math_minmax v limit = max (min v limit) (- limit)"

definition distance2D :: "point \<Rightarrow> point \<Rightarrow> real" where
  "distance2D p1 p2 = sqrt ((ptX p2 - ptX p1)\<^sup>2 + (ptY p2 - ptY p1)\<^sup>2)"

text \<open>The value of a JavaScript division of two finite numbers.\<close>

datatype quotient = Finite real | PlusInfinity | MinusInfinity | NaN

definition js_divide :: "real \<Rightarrow> real \<Rightarrow> quotient" where
  "js_divide a b =
     (if b \<noteq> 0 then Finite (a / b)
      else if a > 0 then PlusInfinity
      else if a < 0 then MinusInfinity
      else NaN)"

text \<open>\<^verbatim>\<open>Math.atan\<close>; the result \<open>None\<close> is \<^verbatim>\<open>NaN\<close>.\<close>

fun Math_atan :: "quotient \<Rightarrow> real option" where
  "Math_atan (Finite q) = Some (arctan q)"
| "Math_atan PlusInfinity = Some (pi / 2)"
| "Math_atan MinusInfinity = Some (- (pi / 2))"
| "Math_atan NaN = None"

definition getAngle :: "point \<Rightarrow> point \<Rightarrow> real option" where
  "getAngle p1 p2 =
     (case Math_atan (js_divide (ptY p2 - ptY p1) (ptX p2 - ptX p1)) of
        None \<Rightarrow> None
      | Some angle \<Rightarrow> Some (if ptX p2 - ptX p1 < 0 then angle + pi else angle))"

definition closestItCanBe :: "point \<Rightarrow> point \<Rightarrow> point option" where
  "closestItCanBe cap b =
     (case getAngle cap b of
        None \<Rightarrow> None
      | Some angle \<Rightarrow>
          (let deltaX = cos angle * (wallWidth / 2 + ballSize / 2);
               deltaY = sin angle * (wallWidth / 2 + ballSize / 2)
           in Some \<lparr>ptX = ptX cap + deltaX, ptY = ptY cap + deltaY\<rparr>))"

text \<open>
  \<^verbatim>\<open>rollAroundCap\<close>. The result \<open>None\<close> is the object whose \<^verbatim>\<open>velocityX\<close>,
  \<^verbatim>\<open>velocityY\<close>, \<^verbatim>\<open>nextX\<close> and \<^verbatim>\<open>nextY\<close> are \<^verbatim>\<open>NaN\<close>, which is what the
  script returns when one of the two angles is \<^verbatim>\<open>NaN\<close>.
\<close>

definition rollAroundCap :: "point \<Rightarrow> ball \<Rightarrow> moving option" where
  "rollAroundCap cap b =
     (case getAngle \<lparr>ptX = ballX b, ptY = ballY b\<rparr> cap of
        None \<Rightarrow> None
      | Some impactAngle \<Rightarrow>
     (case getAngle \<lparr>ptX = 0, ptY = 0\<rparr> \<lparr>ptX = velocityX b, ptY = velocityY b\<rparr> of
        None \<Rightarrow> None
      | Some heading \<Rightarrow>
          (let impactHeadingAngle = impactAngle - heading;
               velocityMagnitude =
                 distance2D \<lparr>ptX = 0, ptY = 0\<rparr> \<lparr>ptX = velocityX b, ptY = velocityY b\<rparr>;
               velocityMagnitudeDiagonalToTheImpact =
                 sin impactHeadingAngle * velocityMagnitude;
               closestDistance = wallWidth / 2 + ballSize / 2;
               rotationAngle = arctan (velocityMagnitudeDiagonalToTheImpact / closestDistance);
               deltaFromCap =
                 \<lparr>ptX = cos (impactAngle + pi - rotationAngle) * closestDistance,
                  ptY = sin (impactAngle + pi - rotationAngle) * closestDistance\<rparr>;
               x = ballX b;
               y = ballY b;
               vX = ballX b - (ptX cap + ptX deltaFromCap);
               vY = ballY b - (ptY cap + ptY deltaFromCap);
               nX = x + vX;
               nY = y + vY
           in Some \<lparr>ballX = x, ballY = y, velocityX = vX, velocityY = vY,
                     nextX = nX, nextY = nY\<rparr>)))"

definition slow :: "real \<Rightarrow> real \<Rightarrow> real" where
  "slow number difference =
     (if \<bar>number\<bar> \<le> difference then 0
      else if number > difference then number - difference
      else number + difference)"

subsection \<open>The layout\<close>

definition toWall :: "gridWall \<Rightarrow> wall" where
  "toWall w =
     \<lparr>wallX = column w * (pathWidth + wallWidth),
      wallY = row w * (pathWidth + wallWidth),
      horizontal = isHorizontal w,
      wallLength = cells w * (pathWidth + wallWidth)\<rparr>"

definition H :: "real \<Rightarrow> real \<Rightarrow> real \<Rightarrow> gridWall" where
  "H c r n = \<lparr>column = c, row = r, isHorizontal = True, cells = n\<rparr>"

definition V :: "real \<Rightarrow> real \<Rightarrow> real \<Rightarrow> gridWall" where
  "V c r n = \<lparr>column = c, row = r, isHorizontal = False, cells = n\<rparr>"

text \<open>The table of the script, in its order; \<open>H\<close> and \<open>V\<close> abbreviate its entries.\<close>

definition layout :: "gridWall list" where
  "layout =
     [H 0 0 10, V 0 0 10, H 0 10 10, V 10 0 10,
      H 0 1 1, H 0 2 1, H 0 7 1,
      H 1 1 1, H 1 2 1, H 1 6 1, H 1 9 1,
      H 2 1 1, H 2 4 1, H 2 6 1, H 2 9 1,
      H 3 3 1, H 3 7 1, H 3 9 1,
      H 4 3 1, H 4 8 1,
      H 5 2 1, H 5 7 1,
      H 6 1 1, H 6 2 1, H 6 6 1,
      H 7 3 1, H 7 6 1, H 7 7 1,
      H 8 1 1, H 8 4 1, H 8 7 1,
      H 9 4 1, H 9 9 1,
      V 5 0 1, V 8 0 1,
      V 3 1 1, V 5 1 1, V 7 1 1, V 9 1 1,
      V 3 2 1, V 7 2 1,
      V 2 3 1, V 3 3 1, V 7 3 1, V 9 3 1,
      V 4 4 1, V 8 4 1,
      V 1 5 1, V 8 5 1, V 9 5 1,
      V 1 6 1, V 3 6 1, V 5 6 1, V 6 6 1, V 9 6 1,
      V 7 7 1,
      V 1 8 1, V 4 8 1, V 5 8 1, V 7 8 1, V 8 8 1,
      V 8 9 1]"

definition walls :: "wall list" where
  "walls = map toWall layout"

subsection \<open>Starting and resetting the game\<close>

definition startCells :: "(real \<times> real) list" where
  "startCells = [(0, 0), (9, 0), (0, 9), (9, 9)]"

definition placeBall :: "real \<times> real \<Rightarrow> ball" where
  "placeBall cell =
     \<lparr>ballX = fst cell * (wallWidth + pathWidth) + (wallWidth / 2 + pathWidth / 2),
      ballY = snd cell * (wallWidth + pathWidth) + (wallWidth / 2 + pathWidth / 2),
      velocityX = 0,
      velocityY = 0\<rparr>"

definition resetGame :: "state \<Rightarrow> state" where
  "resetGame s =
     \<lparr>previousTimestamp = None,
      gameInProgress = False,
      tiltReading = None,
      balls = map (\<lambda>cell. Some (placeBall cell)) startCells\<rparr>"

text \<open>The second component tells whether a frame was requested.\<close>

definition startGame :: "state \<Rightarrow> state \<times> bool" where
  "startGame s =
     (if \<not> gameInProgress s then (s\<lparr>gameInProgress := True\<rparr>, True) else (s, False))"

text \<open>
  \<^verbatim>\<open>handleDeviceOrientation\<close>, on an event with the tilts \<^verbatim>\<open>gamma\<close> and \<^verbatim>\<open>beta\<close>
  in degrees. It always requests a frame.
\<close>

definition handleDeviceOrientation :: "real \<Rightarrow> real \<Rightarrow> state \<Rightarrow> state" where
  "handleDeviceOrientation gamma beta s =
     (let tiltLR = gamma;
          tiltFB = beta;
          rotationFactor = 0.8;
          rotationY = tiltLR * rotationFactor;
          rotationX = tiltFB * rotationFactor;
          gravity = 0.1;
          friction = 0.001
      in s\<lparr>tiltReading := Some
             \<lparr>accelerationX = gravity * sin ((rotationY / 180) * pi),
              accelerationY = gravity * sin ((rotationX / 180) * pi),
              frictionX = gravity * cos ((rotationY / 180) * pi) * friction,
              frictionY = gravity * cos ((rotationX / 180) * pi) * friction\<rparr>\<rparr>)"

subsection \<open>The main loop\<close>

definition maxVelocity :: real where
  "maxVelocity = 0.25"

text \<open>Lines 492 to 503: the new \<^verbatim>\<open>ball.velocityX\<close>.\<close>

definition updateVelocityX :: "real \<Rightarrow> real \<Rightarrow> real \<Rightarrow> real" where
  "updateVelocityX velocityChangeX frictionDeltaX v =
     (if velocityChangeX = 0 then slow v frictionDeltaX
      else
        (let v1 = v + velocityChangeX;
             v2 = max (min v1 1.5) (- 1.5);
             v3 = v2 - sgn velocityChangeX * frictionDeltaX
         in Math_minmax v3 maxVelocity))"

text \<open>Lines 505 to 516: the new \<^verbatim>\<open>ball.velocityY\<close>.\<close>

definition updateVelocityY :: "real \<Rightarrow> real \<Rightarrow> real \<Rightarrow> real" where
  "updateVelocityY velocityChangeY frictionDeltaY v =
     (if velocityChangeY = 0 then slow v frictionDeltaY
      else
        (let v1 = v + velocityChangeY;
             v2 = v1 - sgn velocityChangeY * frictionDeltaY
         in Math_minmax v2 maxVelocity))"

text \<open>
  The body of each of the four cap tests, after its guard: the distance test, and the
  deflection that replaces all six properties of the ball (\<^verbatim>\<open>Object.assign\<close>).
\<close>

definition capTest :: "point \<Rightarrow> moving \<Rightarrow> moving option" where
  "capTest cap b =
     (let distance = distance2D cap \<lparr>ptX = nextX b, ptY = nextY b\<rparr> in
      if distance < ballSize / 2 + wallWidth / 2 then
        (case closestItCanBe cap \<lparr>ptX = nextX b, ptY = nextY b\<rparr> of
           None \<Rightarrow> None
         | Some closest \<Rightarrow>
             rollAroundCap cap
               \<lparr>ballX = ptX closest, ballY = ptY closest,
                velocityX = velocityX b, velocityY = velocityY b\<rparr>)
      else Some b)"

text \<open>Lines 528 to 610: one horizontal wall.\<close>

definition hitHorizontal :: "wall \<Rightarrow> moving \<Rightarrow> moving option" where
  "hitHorizontal w b =
     (if nextY b + ballSize / 2 \<ge> wallY w - wallWidth / 2 \<and>
         nextY b - ballSize / 2 \<le> wallY w + wallWidth / 2
      then
        (let wallStart = \<lparr>ptX = wallX w, ptY = wallY w\<rparr>;
             wallEnd = \<lparr>ptX = wallX w + wallLength w, ptY = wallY w\<rparr>
         in
         case (if nextX b + ballSize / 2 \<ge> ptX wallStart - wallWidth / 2 \<and>
                  nextX b < ptX wallStart
               then capTest wallStart b else Some b) of
           None \<Rightarrow> None
         | Some b1 \<Rightarrow>
         (case (if nextX b1 - ballSize / 2 \<le> ptX wallEnd + wallWidth / 2 \<and>
                   nextX b1 > ptX wallEnd
                then capTest wallEnd b1 else Some b1) of
           None \<Rightarrow> None
         | Some b2 \<Rightarrow>
             (if nextX b2 \<ge> ptX wallStart \<and> nextX b2 \<le> ptX wallEnd then
                (let n = (if nextY b2 < wallY w
                          then wallY w - wallWidth / 2 - ballSize / 2
                          else wallY w + wallWidth / 2 + ballSize / 2)
                 in Some (b2\<lparr>nextY := n, ballY := n, velocityY := - velocityY b2 / 6\<rparr>))
              else Some b2)))
      else Some b)"

text \<open>Lines 613 to 694: one vertical wall.\<close>

definition hitVertical :: "wall \<Rightarrow> moving \<Rightarrow> moving option" where
  "hitVertical w b =
     (if nextX b + ballSize / 2 \<ge> wallX w - wallWidth / 2 \<and>
         nextX b - ballSize / 2 \<le> wallX w + wallWidth / 2
      then
        (let wallStart = \<lparr>ptX = wallX w, ptY = wallY w\<rparr>;
             wallEnd = \<lparr>ptX = wallX w, ptY = wallY w + wallLength w\<rparr>
         in
         case (if nextY b + ballSize / 2 \<ge> ptY wallStart - wallWidth / 2 \<and>
                  nextY b < ptY wallStart
               then capTest wallStart b else Some b) of
           None \<Rightarrow> None
         | Some b1 \<Rightarrow>
         (case (if nextY b1 - ballSize / 2 \<le> ptY wallEnd + wallWidth / 2 \<and>
                   nextY b1 > ptY wallEnd
                then capTest wallEnd b1 else Some b1) of
           None \<Rightarrow> None
         | Some b2 \<Rightarrow>
             (if nextY b2 \<ge> ptY wallStart \<and> nextY b2 \<le> ptY wallEnd then
                (let n = (if nextX b2 < wallX w
                          then wallX w - wallWidth / 2 - ballSize / 2
                          else wallX w + wallWidth / 2 + ballSize / 2)
                 in Some (b2\<lparr>nextX := n, ballX := n, velocityX := - velocityX b2 / 6\<rparr>))
              else Some b2)))
      else Some b)"

definition hitWall :: "wall \<Rightarrow> moving \<Rightarrow> moving option" where
  "hitWall w b = (if horizontal w then hitHorizontal w b else hitVertical w b)"

text \<open>
  \<^verbatim>\<open>walls.forEach\<close>: every wall in the order of the list, on the ball as the walls
  before left it.
\<close>

fun hitWalls :: "wall list \<Rightarrow> moving \<Rightarrow> moving option" where
  "hitWalls [] b = Some b"
| "hitWalls (w # ws) b =
     (case hitWall w b of None \<Rightarrow> None | Some b' \<Rightarrow> hitWalls ws b')"

text \<open>Lines 492 to 523: the new velocity and the preliminary next position.\<close>

definition accelerate :: "real \<Rightarrow> real \<Rightarrow> real \<Rightarrow> real \<Rightarrow> ball \<Rightarrow> moving" where
  "accelerate velocityChangeX velocityChangeY frictionDeltaX frictionDeltaY b =
     (let vX = updateVelocityX velocityChangeX frictionDeltaX (velocityX b);
          vY = updateVelocityY velocityChangeY frictionDeltaY (velocityY b)
      in \<lparr>ballX = ballX b, ballY = ballY b, velocityX = vX, velocityY = vY,
          nextX = ballX b + vX, nextY = ballY b + vY\<rparr>)"

text \<open>Lines 698 to 700: the position is moved by the velocity.\<close>

definition commit :: "moving \<Rightarrow> ball" where
  "commit b =
     \<lparr>ballX = ballX b + velocityX b, ballY = ballY b + velocityY b,
      velocityX = velocityX b, velocityY = velocityY b\<rparr>"

text \<open>
  The body of \<^verbatim>\<open>balls.forEach\<close> (lines 491 to 701) on one ball, over a list of walls.
\<close>

definition moveBallOver ::
  "wall list \<Rightarrow> real \<Rightarrow> real \<Rightarrow> real \<Rightarrow> real \<Rightarrow> ball \<Rightarrow> ball option" where
  "moveBallOver ws velocityChangeX velocityChangeY frictionDeltaX frictionDeltaY b =
     map_option commit
       (hitWalls ws (accelerate velocityChangeX velocityChangeY frictionDeltaX frictionDeltaY b))"

definition moveBall :: "real \<Rightarrow> real \<Rightarrow> real \<Rightarrow> real \<Rightarrow> ball \<Rightarrow> ball option" where
  "moveBall = moveBallOver walls"

text \<open>The test of the win detection (line 711) on one ball.\<close>

definition inGoal :: "ball option \<Rightarrow> bool" where
  "inGoal b =
     (case b of
        None \<Rightarrow> False
      | Some b' \<Rightarrow>
          distance2D \<lparr>ptX = ballX b', ptY = ballY b'\<rparr> \<lparr>ptX = 400 / 2, ptY = 400 / 2\<rparr> < 75 / 2)"

text \<open>Lines 485 to 708: the physics of one tick, on all balls.\<close>

definition physics :: "real \<Rightarrow> state \<Rightarrow> ball option list" where
  "physics timeElapsed s =
     (case tiltReading s of
        None \<Rightarrow> balls s
      | Some t \<Rightarrow>
          (let velocityChangeX = accelerationX t * timeElapsed;
               velocityChangeY = accelerationY t * timeElapsed;
               frictionDeltaX = frictionX t * timeElapsed;
               frictionDeltaY = frictionY t * timeElapsed
           in map (\<lambda>b. Option.bind b
                     (moveBall velocityChangeX velocityChangeY frictionDeltaX frictionDeltaY))
                (balls s)))"

text \<open>\<^verbatim>\<open>main\<close>. The second component tells whether the next frame was requested.\<close>

definition main :: "real \<Rightarrow> state \<Rightarrow> state \<times> bool" where
  "main timestamp s =
     (if \<not> gameInProgress s then (s, False)
      else
        (case previousTimestamp s of
           None \<Rightarrow> (s\<lparr>previousTimestamp := Some timestamp\<rparr>, True)
         | Some previous \<Rightarrow>
             (let timeElapsed = (timestamp - previous) / 16;
                  s1 = s\<lparr>balls := physics timeElapsed s\<rparr>
              in if list_all inGoal (balls s1)
                 then (s1\<lparr>gameInProgress := False\<rparr>, False)
                 else (s1\<lparr>previousTimestamp := Some timestamp\<rparr>, True))))"

subsection \<open>The handlers as events\<close>

text \<open>
  The script registers \<^verbatim>\<open>startGame\<close> and \<^verbatim>\<open>resetGame\<close> as click listeners,
  \<^verbatim>\<open>handleDeviceOrientation\<close> as the listener of \<^verbatim>\<open>deviceorientation\<close>, and passes
  \<^verbatim>\<open>main\<close> to \<^verbatim>\<open>requestAnimationFrame\<close>. A run of the page is a list of these calls.
\<close>

datatype event = Start | Reset | Orientation real real | Frame real

fun step :: "state \<Rightarrow> event \<Rightarrow> state" where
  "step s Start = fst (startGame s)"
| "step s Reset = resetGame s"
| "step s (Orientation gamma beta) = handleDeviceOrientation gamma beta s"
| "step s (Frame timestamp) = fst (main timestamp s)"

definition run :: "state \<Rightarrow> event list \<Rightarrow> state" where
  "run = foldl step"

subsection \<open>The deflection as the specification words it\<close>

text \<open>
  The formula chain of the specification for \<^verbatim>\<open>rollAroundCap\<close>: the rotation angle
  is the arctangent of sin(impactAngle - heading) times the velocity's magnitude over
  wallWidth/2 + ballSize/2; the offset from the cap is the unit vector at
  impactAngle + pi - rotationAngle times wallWidth/2 + ballSize/2; the position is the
  input's, the velocity is the position minus (cap + offset), the next position is the
  position plus that velocity. Both angles are those of \<open>getAngle\<close>.
\<close>

definition rollAroundCap_spec :: "point \<Rightarrow> ball \<Rightarrow> moving option" where
  "rollAroundCap_spec cap b =
     (case (getAngle \<lparr>ptX = ballX b, ptY = ballY b\<rparr> cap,
            getAngle \<lparr>ptX = 0, ptY = 0\<rparr> \<lparr>ptX = velocityX b, ptY = velocityY b\<rparr>) of
        (Some impactAngle, Some heading) \<Rightarrow>
          (let rotationAngle =
                 arctan (sin (impactAngle - heading) * sqrt ((velocityX b)\<^sup>2 + (velocityY b)\<^sup>2)
                         / (wallWidth / 2 + ballSize / 2));
               deltaX = cos (impactAngle + pi - rotationAngle) * (wallWidth / 2 + ballSize / 2);
               deltaY = sin (impactAngle + pi - rotationAngle) * (wallWidth / 2 + ballSize / 2)
           in Some \<lparr>ballX = ballX b,
                    ballY = ballY b,
                    velocityX = ballX b - (ptX cap + deltaX),
                    velocityY = ballY b - (ptY cap + deltaY),
                    nextX = ballX b + (ballX b - (ptX cap + deltaX)),
                    nextY = ballY b + (ballY b - (ptY cap + deltaY))\<rparr>)
      | _ \<Rightarrow> None)"

text \<open>
  The velocity update of the specification, for an axis whose velocity change is not
  zero: add the change, clamp to [-1.5, 1.5], subtract sign(change) times the friction
  delta, clamp symmetrically to \<open>maxVelocity\<close>.
\<close>

definition tiltedUpdate_spec :: "real \<Rightarrow> real \<Rightarrow> real \<Rightarrow> real" where
  "tiltedUpdate_spec velocityChange frictionDelta v =
     Math_minmax (max (- 1.5) (min 1.5 (v + velocityChange)) - sgn velocityChange * frictionDelta)
       maxVelocity"

subsection \<open>Notions of the properties\<close>

text \<open>
  A cap deflection happens at wall \<open>w\<close> on the ball \<open>b\<close>: the ball is in the strip of the
  wall, and one of the two cap tests of the wall passes its guard and its distance test.
\<close>

definition capHit :: "wall \<Rightarrow> moving \<Rightarrow> bool" where
  "capHit w b =
     (if horizontal w then
        nextY b + ballSize / 2 \<ge> wallY w - wallWidth / 2 \<and>
        nextY b - ballSize / 2 \<le> wallY w + wallWidth / 2 \<and>
        (nextX b + ballSize / 2 \<ge> wallX w - wallWidth / 2 \<and> nextX b < wallX w \<and>
         distance2D \<lparr>ptX = wallX w, ptY = wallY w\<rparr> \<lparr>ptX = nextX b, ptY = nextY b\<rparr>
           < ballSize / 2 + wallWidth / 2
         \<or>
         nextX b - ballSize / 2 \<le> wallX w + wallLength w + wallWidth / 2 \<and>
         nextX b > wallX w + wallLength w \<and>
         distance2D \<lparr>ptX = wallX w + wallLength w, ptY = wallY w\<rparr>
             \<lparr>ptX = nextX b, ptY = nextY b\<rparr>
           < ballSize / 2 + wallWidth / 2)
      else
        nextX b + ballSize / 2 \<ge> wallX w - wallWidth / 2 \<and>
        nextX b - ballSize / 2 \<le> wallX w + wallWidth / 2 \<and>
        (nextY b + ballSize / 2 \<ge> wallY w - wallWidth / 2 \<and> nextY b < wallY w \<and>
         distance2D \<lparr>ptX = wallX w, ptY = wallY w\<rparr> \<lparr>ptX = nextX b, ptY = nextY b\<rparr>
           < ballSize / 2 + wallWidth / 2
         \<or>
         nextY b - ballSize / 2 \<le> wallY w + wallLength w + wallWidth / 2 \<and>
         nextY b > wallY w + wallLength w \<and>
         distance2D \<lparr>ptX = wallX w, ptY = wallY w + wallLength w\<rparr>
             \<lparr>ptX = nextX b, ptY = nextY b\<rparr>
           < ballSize / 2 + wallWidth / 2))"

text \<open>No cap deflection happens while the walls of the list are tested in turn.\<close>

fun noCapHits :: "wall list \<Rightarrow> moving \<Rightarrow> bool" where
  "noCapHits [] b = True"
| "noCapHits (w # ws) b =
     (\<not> capHit w b \<and> (case hitWall w b of None \<Rightarrow> False | Some b' \<Rightarrow> noCapHits ws b'))"

text \<open>
  The body test of wall \<open>w\<close> passes on the ball \<open>b\<close>: the ball is in the strip of the wall
  and between its two ends.
\<close>

definition bodyHit :: "wall \<Rightarrow> moving \<Rightarrow> bool" where
  "bodyHit w b =
     (if horizontal w then
        nextY b + ballSize / 2 \<ge> wallY w - wallWidth / 2 \<and>
        nextY b - ballSize / 2 \<le> wallY w + wallWidth / 2 \<and>
        nextX b \<ge> wallX w \<and> nextX b \<le> wallX w + wallLength w
      else
        nextX b + ballSize / 2 \<ge> wallX w - wallWidth / 2 \<and>
        nextX b - ballSize / 2 \<le> wallX w + wallWidth / 2 \<and>
        nextY b \<ge> wallY w \<and> nextY b \<le> wallY w + wallLength w)"

text \<open>
  At the next position of the ball \<open>b\<close>, no cap deflection happens and no body test
  passes at any wall of the list.
\<close>

definition untouched :: "wall list \<Rightarrow> moving \<Rightarrow> bool" where
  "untouched ws b = list_all (\<lambda>w. \<not> capHit w b \<and> \<not> bodyHit w b) ws"

text \<open>
  The two cap centers of a wall, and the distance of a point from its centerline, the
  segment between them.
\<close>

definition capStart :: "wall \<Rightarrow> point" where
  "capStart w = \<lparr>ptX = wallX w, ptY = wallY w\<rparr>"

definition capEnd :: "wall \<Rightarrow> point" where
  "capEnd w =
     (if horizontal w then \<lparr>ptX = wallX w + wallLength w, ptY = wallY w\<rparr>
      else \<lparr>ptX = wallX w, ptY = wallY w + wallLength w\<rparr>)"

definition centerlineDistance :: "wall \<Rightarrow> point \<Rightarrow> real" where
  "centerlineDistance w p =
     (if horizontal w then
        (if ptX p < wallX w then distance2D (capStart w) p
         else if wallX w + wallLength w < ptX p then distance2D (capEnd w) p
         else \<bar>ptY p - wallY w\<bar>)
      else
        (if ptY p < wallY w then distance2D (capStart w) p
         else if wallY w + wallLength w < ptY p then distance2D (capEnd w) p
         else \<bar>ptX p - wallX w\<bar>))"

text \<open>The separation of a ball's center from one wall that the specification states.\<close>

definition separated :: "wall \<Rightarrow> point \<Rightarrow> bool" where
  "separated w p =
     (wallWidth / 2 + ballSize / 2 \<le> centerlineDistance w p \<and>
      wallWidth / 2 + ballSize / 2 \<le> distance2D (capStart w) p \<and>
      wallWidth / 2 + ballSize / 2 \<le> distance2D (capEnd w) p)"

subsection \<open>Concrete balls and states of the examples\<close>

text \<open>A ball left of the vertical wall from (120, 40) to (120, 80), moving right.\<close>

definition approaching :: ball where
  "approaching = \<lparr>ballX = 109.9, ballY = 60, velocityX = 0.3, velocityY = 0\<rparr>"

text \<open>
  A ball left of the point (120, 80), where that wall ends and the vertical wall from
  (120, 80) to (120, 120) starts, moving right.
\<close>

definition approachingJunction :: ball where
  "approachingJunction = \<lparr>ballX = 109.9, ballY = 80, velocityX = 0.3, velocityY = 0\<rparr>"

text \<open>
  A running game whose four balls are at the center of the maze, and the balls after one
  and after two flat ticks of 16 and 32 ms.
\<close>

definition centred :: ball where
  "centred = \<lparr>ballX = 200, ballY = 200, velocityX = 0.1, velocityY = 0\<rparr>"

definition centred1 :: ball where
  "centred1 = \<lparr>ballX = 200.0999, ballY = 200, velocityX = 0.0999, velocityY = 0\<rparr>"

definition centred2 :: ball where
  "centred2 = \<lparr>ballX = 200.1996, ballY = 200, velocityX = 0.0997, velocityY = 0\<rparr>"

definition flat :: tilt where
  "flat = \<lparr>accelerationX = 0, accelerationY = 0, frictionX = 0.0001, frictionY = 0.0001\<rparr>"

definition aboutToWin :: state where
  "aboutToWin =
     \<lparr>previousTimestamp = Some 0, gameInProgress = True, tiltReading = Some flat,
      balls = [Some centred, Some centred, Some centred, Some centred]\<rparr>"

text \<open>
  A ball above the point (40, 40), where the horizontal wall from (0, 40) ends and the
  horizontal wall to (80, 40) starts, moving down.
\<close>

definition sinking :: ball where
  "sinking = \<lparr>ballX = 40, ballY = 29.75, velocityX = 0, velocityY = 0.25\<rparr>"

definition sunk :: ball where
  "sunk = \<lparr>ballX = 40, ballY = 30 + 0.25 / 36, velocityX = 0, velocityY = 0.25 / 36\<rparr>"

text \<open>
  Two balls above and right of the top cap (80, 120) of the vertical wall from (80, 120)
  to (80, 160), at a distance of more than 10 from it, moving towards it.
\<close>

definition grazing :: ball where
  "grazing = \<lparr>ballX = 85.72, ballY = 111.79, velocityX = 0.25, velocityY = 0.25\<rparr>"

definition dropping :: ball where
  "dropping = \<lparr>ballX = 85.9605, ballY = 111.79, velocityX = 0.01, velocityY = 0.25\<rparr>"

text \<open>
  The tilt readings of a device tilted by about 46 degrees to one side (the sine of the
  rotation is 0.6), and the frames of a run: \<open>n\<close> calls of \<^verbatim>\<open>main\<close>, 80 ms apart,
  after the timestamp \<open>p\<close>.
\<close>

definition tiltAngle :: real where
  "tiltAngle = arcsin (3 / 5) * 225 / pi"

definition tiltedRight :: tilt where
  "tiltedRight =
     \<lparr>accelerationX = 0.06, accelerationY = 0, frictionX = 0.00008, frictionY = 0.0001\<rparr>"

definition tiltedLeft :: tilt where
  "tiltedLeft =
     \<lparr>accelerationX = - 0.06, accelerationY = 0, frictionX = 0.00008, frictionY = 0.0001\<rparr>"

definition tiltedDown :: tilt where
  "tiltedDown =
     \<lparr>accelerationX = 0, accelerationY = 0.06, frictionX = 0.0001, frictionY = 0.00008\<rparr>"

definition tiltedUp :: tilt where
  "tiltedUp =
     \<lparr>accelerationX = 0, accelerationY = - 0.06, frictionX = 0.0001, frictionY = 0.00008\<rparr>"

definition frames :: "real \<Rightarrow> nat \<Rightarrow> event list" where
  "frames p n = map (\<lambda>k. Frame (p + 80 * real k)) [1..<Suc n]"

text \<open>
  A run of the page that brings the first ball to \<open>sinking\<close>: the game is reset and
  started, the device is tilted to the right for 80 frames, then tilted down for a frame
  48 s later and 38 frames. The first ball after \<open>k\<close> frames of each of the two legs.
\<close>

definition sinkingTrace :: "event list" where
  "sinkingTrace =
     [Start, Frame 0, Orientation tiltAngle 0] @ frames 0 80 @
     [Orientation 0 tiltAngle, Frame 54400] @ frames 54400 38"

definition rightward :: "nat \<Rightarrow> ball" where
  "rightward k =
     \<lparr>ballX = 20 + 0.25 * real k, ballY = 20,
      velocityX = (if k = 0 then 0 else 0.25), velocityY = 0\<rparr>"

definition downward :: "nat \<Rightarrow> ball" where
  "downward k =
     \<lparr>ballX = 40, ballY = 20.25 + 0.25 * real k, velocityX = 0, velocityY = 0.25\<rparr>"

text \<open>
  A run of the page in which the second ball ends with \<^verbatim>\<open>NaN\<close> in all its fields. The
  device is tilted down for 320 frames, to the left for 320 frames, up for 80 frames and to
  the left for 39 frames, each time after a pause of 48 s: the ball goes from (380, 20)
  by (380, 100), (300, 100) and (300, 80) to (290.25, 80). In the next frame it hits the
  bodies of the vertical walls from (280, 40) to (280, 80) and from (280, 80) to
  (280, 120) and ends at x = 290 - 0.25/36. Then the device lies flat, and in a frame
  1.6 s later the ball, now with velocity (0, 0), is within 10 of the end (280, 80) of
  the horizontal wall from (240, 80). The second ball after \<open>k\<close> frames of each leg.
\<close>

definition vanishingTrace :: "event list" where
  "vanishingTrace =
     [Start, Frame 0, Orientation 0 tiltAngle] @ frames 0 320 @
     [Orientation (- tiltAngle) 0, Frame 73600] @ frames 73600 319 @
     [Orientation 0 (- tiltAngle), Frame 147120] @ frames 147120 79 @
     [Orientation (- tiltAngle) 0, Frame 201440] @ frames 201440 38 @
     [Frame 204560, Orientation 0 0, Frame 206160]"

definition descent :: "nat \<Rightarrow> ball" where
  "descent k =
     \<lparr>ballX = 380, ballY = 20 + 0.25 * real k,
      velocityX = 0, velocityY = (if k = 0 then 0 else 0.25)\<rparr>"

definition westward :: "nat \<Rightarrow> ball" where
  "westward k =
     \<lparr>ballX = 379.75 - 0.25 * real k, ballY = 100, velocityX = - 0.25, velocityY = 0\<rparr>"

definition ascent :: "nat \<Rightarrow> ball" where
  "ascent k =
     \<lparr>ballX = 300, ballY = 99.75 - 0.25 * real k, velocityX = 0, velocityY = - 0.25\<rparr>"

definition closing :: "nat \<Rightarrow> ball" where
  "closing k =
     \<lparr>ballX = 299.75 - 0.25 * real k, ballY = 80, velocityX = - 0.25, velocityY = 0\<rparr>"

definition overlapping :: ball where
  "overlapping =
     \<lparr>ballX = 290 - 0.25 / 36, ballY = 80, velocityX = - (0.25 / 36), velocityY = 0\<rparr>"

text \<open>
  The game is in progress with previous timestamp \<open>p\<close> and tilt reading \<open>T\<close>, and its
  ball of index \<open>i\<close> is \<open>b\<close>.
\<close>

definition running :: "nat \<Rightarrow> state \<Rightarrow> real \<Rightarrow> tilt \<Rightarrow> ball \<Rightarrow> bool" where
  "running i s p T b =
     (gameInProgress s \<and> previousTimestamp s = Some p \<and> tiltReading s = Some T \<and>
      i < length (balls s) \<and> balls s ! i = Some b)"

section \<open>Properties\<close>

subsection \<open>Resetting\<close>

text \<open>
  C8. From any state, \<^verbatim>\<open>resetGame\<close> places the four balls at (20,20), (380,20),
  (20,380) and (380,380), which are the cells (0,0), (9,0), (0,9), (9,9) under
  x = column * 40 + 20 and y = row * 40 + 20, with both velocity components 0, and
  leaves the game not in progress, with no previous timestamp and no tilt reading.
\<close>

theorem resetGame_places_balls:
  "balls (resetGame s) =
     [Some \<lparr>ballX = 20, ballY = 20, velocityX = 0, velocityY = 0\<rparr>,
      Some \<lparr>ballX = 380, ballY = 20, velocityX = 0, velocityY = 0\<rparr>,
      Some \<lparr>ballX = 20, ballY = 380, velocityX = 0, velocityY = 0\<rparr>,
      Some \<lparr>ballX = 380, ballY = 380, velocityX = 0, velocityY = 0\<rparr>]
   \<and> balls (resetGame s) =
       map (\<lambda>(c, r). Some \<lparr>ballX = c * 40 + 20, ballY = r * 40 + 20,
                            velocityX = 0, velocityY = 0\<rparr>)
         [(0, 0), (9, 0), (0, 9), (9, 9)]
   \<and> gameInProgress (resetGame s) = False
   \<and> previousTimestamp (resetGame s) = None
   \<and> tiltReading (resetGame s) = None
   \<and> fst (main t (resetGame s)) = resetGame s
   \<and> snd (main t (resetGame s)) = False"
  by (simp add: resetGame_def startCells_def placeBall_def wallWidth_def pathWidth_def main_def)

subsection \<open>The layout and the tick on one ball\<close>

lemma walls_eq:
  "walls =
     map (\<lambda>(a, b, h, l). \<lparr>wallX = a, wallY = b, horizontal = h, wallLength = l\<rparr>)
       [(0, 0, True, 400), (0, 0, False, 400), (0, 400, True, 400), (400, 0, False, 400),
        (0, 40, True, 40), (0, 80, True, 40), (0, 280, True, 40),
        (40, 40, True, 40), (40, 80, True, 40), (40, 240, True, 40), (40, 360, True, 40),
        (80, 40, True, 40), (80, 160, True, 40), (80, 240, True, 40), (80, 360, True, 40),
        (120, 120, True, 40), (120, 280, True, 40), (120, 360, True, 40),
        (160, 120, True, 40), (160, 320, True, 40),
        (200, 80, True, 40), (200, 280, True, 40),
        (240, 40, True, 40), (240, 80, True, 40), (240, 240, True, 40),
        (280, 120, True, 40), (280, 240, True, 40), (280, 280, True, 40),
        (320, 40, True, 40), (320, 160, True, 40), (320, 280, True, 40),
        (360, 160, True, 40), (360, 360, True, 40),
        (200, 0, False, 40), (320, 0, False, 40),
        (120, 40, False, 40), (200, 40, False, 40), (280, 40, False, 40), (360, 40, False, 40),
        (120, 80, False, 40), (280, 80, False, 40),
        (80, 120, False, 40), (120, 120, False, 40), (280, 120, False, 40), (360, 120, False, 40),
        (160, 160, False, 40), (320, 160, False, 40),
        (40, 200, False, 40), (320, 200, False, 40), (360, 200, False, 40),
        (40, 240, False, 40), (120, 240, False, 40), (200, 240, False, 40),
        (240, 240, False, 40), (360, 240, False, 40),
        (280, 280, False, 40),
        (40, 320, False, 40), (160, 320, False, 40), (200, 320, False, 40),
        (280, 320, False, 40), (320, 320, False, 40),
        (320, 360, False, 40)]"
  by (simp add: walls_def layout_def H_def V_def toWall_def pathWidth_def wallWidth_def)

lemmas hit_defs = hitWall_def hitHorizontal_def hitVertical_def wallWidth_def ballSize_def

lemmas update_defs =
  accelerate_def updateVelocityX_def updateVelocityY_def slow_def Math_minmax_def maxVelocity_def
  Let_def

lemma sqrt_less_iff: "0 \<le> a \<Longrightarrow> sqrt x < a \<longleftrightarrow> x < a\<^sup>2"
  by (metis real_sqrt_less_iff real_sqrt_abs abs_of_nonneg)

lemma le_sqrt_iff: "0 \<le> a \<Longrightarrow> a \<le> sqrt x \<longleftrightarrow> a\<^sup>2 \<le> x"
  by (metis real_sqrt_le_iff real_sqrt_abs abs_of_nonneg)

text \<open>
  In a running game with a previous timestamp and a tilt reading, \<^verbatim>\<open>main\<close> applies
  \<open>moveBall\<close> to every ball, with the velocity changes and friction deltas of the time
  elapsed.
\<close>

lemma length_physics: "length (physics e s) = length (balls s)"
  by (simp add: physics_def Let_def split: option.splits)

lemma nth_physics:
  "i < length (balls s) \<Longrightarrow> tiltReading s = Some t \<Longrightarrow>
   physics e s ! i =
     Option.bind (balls s ! i)
       (moveBall (accelerationX t * e) (accelerationY t * e) (frictionX t * e) (frictionY t * e))"
  by (simp add: physics_def Let_def)

lemma balls_main:
  "gameInProgress s \<Longrightarrow> previousTimestamp s = Some p \<Longrightarrow>
   balls (fst (main t s)) = physics ((t - p) / 16) s"
  by (simp add: main_def Let_def)

lemma main_not_in_progress: "\<not> gameInProgress s \<Longrightarrow> main t s = (s, False)"
  by (simp add: main_def)

subsection \<open>Friction on a flat axis\<close>

lemma slow_cases:
  "0 < d \<Longrightarrow> slow v d = (if \<bar>v\<bar> \<le> d then 0 else sgn v * (\<bar>v\<bar> - d))"
  by (auto simp: slow_def sgn_if)

lemma slow_abs_le: "0 \<le> d \<Longrightarrow> \<bar>slow v d\<bar> \<le> \<bar>v\<bar>"
  by (auto simp: slow_def)

lemma slow_iterated_zero:
  "0 < d \<Longrightarrow> \<bar>v\<bar> \<le> real k * d \<Longrightarrow> ((\<lambda>u. slow u d) ^^ k) v = 0"
proof (induction k arbitrary: v)
  case 0
  then show ?case by simp
next
  case (Suc k)
  have "\<bar>slow v d\<bar> \<le> real k * d"
  proof (cases "\<bar>v\<bar> \<le> d")
    case True
    then show ?thesis using Suc.prems by (simp add: slow_def)
  next
    case False
    then have "\<bar>slow v d\<bar> = \<bar>v\<bar> - d"
      using Suc.prems by (auto simp: slow_def)
    then show ?thesis using Suc.prems by (simp add: algebra_simps)
  qed
  then have "((\<lambda>u. slow u d) ^^ k) (slow v d) = 0"
    using Suc.IH Suc.prems by blast
  then show ?case by (simp add: funpow_Suc_right del: funpow.simps)
qed

lemma slow_iterated_sign:
  "0 < d \<Longrightarrow> sgn (((\<lambda>u. slow u d) ^^ n) v) = 0 \<or> sgn (((\<lambda>u. slow u d) ^^ n) v) = sgn v"
proof (induction n)
  case 0
  then show ?case by simp
next
  case (Suc n)
  have "sgn (slow u d) = 0 \<or> sgn (slow u d) = sgn u" for u
    using Suc.prems by (auto simp: slow_def sgn_if)
  then show ?case using Suc by (metis funpow.simps(2) o_apply)
qed

lemma free_flight_decay:
  "moveBall 0 0 0.01 0.01 \<lparr>ballX = 20, ballY = 20, velocityX = 0.2, velocityY = 0\<rparr> =
     Some \<lparr>ballX = 20.19, ballY = 20, velocityX = 0.19, velocityY = 0\<rparr>"
  apply (simp add: moveBall_def moveBallOver_def update_defs walls_eq)
  apply (simp add: hit_defs)
  apply (simp add: commit_def)
  done

text \<open>
  C6. For a positive difference \<open>d\<close>, \<open>slow v d\<close> is 0 when the magnitude of \<open>v\<close> is at
  most \<open>d\<close>, and otherwise has the sign of \<open>v\<close> and the magnitude of \<open>v\<close> less \<open>d\<close>.
  Iterating it with that \<open>d\<close> reaches exactly 0 after finitely many steps, and no iterate
  has the sign opposite to \<open>v\<close>. In a tick with velocity change 0 and friction delta 0.01
  on both axes, the ball of velocity (0.2, 0) at the first starting position gets the
  velocity 0.19 on the x axis.
\<close>

theorem slow_decays_to_zero:
  assumes "0 < d"
  shows "slow v d = (if \<bar>v\<bar> \<le> d then 0 else sgn v * (\<bar>v\<bar> - d))
       \<and> (\<exists>n. ((\<lambda>u. slow u d) ^^ n) v = 0)
       \<and> (\<forall>n. sgn (((\<lambda>u. slow u d) ^^ n) v) = 0 \<or> sgn (((\<lambda>u. slow u d) ^^ n) v) = sgn v)
       \<and> updateVelocityX 0 0.01 0.2 = 0.19
       \<and> moveBall 0 0 0.01 0.01 \<lparr>ballX = 20, ballY = 20, velocityX = 0.2, velocityY = 0\<rparr> =
           Some \<lparr>ballX = 20.19, ballY = 20, velocityX = 0.19, velocityY = 0\<rparr>"
proof -
  define k where "k = nat \<lceil>\<bar>v\<bar> / d\<rceil>"
  have "\<bar>v\<bar> / d \<le> real k"
    unfolding k_def by linarith
  then have "\<bar>v\<bar> \<le> real k * d"
    using assms by (simp only: pos_divide_le_eq)
  then have "\<exists>n. ((\<lambda>u. slow u d) ^^ n) v = 0"
    using slow_iterated_zero [OF assms] by blast
  moreover have "updateVelocityX 0 0.01 0.2 = 0.19"
    by (simp add: updateVelocityX_def slow_def)
  ultimately show ?thesis
    using slow_cases [OF assms] slow_iterated_sign [OF assms] free_flight_decay by blast
qed

theorem slow_decays_to_zero_witness:
  "(0::real) < 0.01 \<and> slow 0.2 0.01 = 0.19 \<and> slow 0.005 0.01 = 0
   \<and> (\<exists>n. ((\<lambda>u. slow u 0.01) ^^ n) 0.2 = 0)"
  using slow_decays_to_zero [of "0.01" "0.2"] slow_decays_to_zero [of "0.01" "0.005"]
  by (simp add: sgn_if)

subsection \<open>Angles and the deflection around a cap\<close>

text \<open>
  C2. \<^verbatim>\<open>rollAroundCap\<close> computes the formula chain of the specification, on every cap
  and every ball (where an angle is \<^verbatim>\<open>NaN\<close>, both are the result with \<^verbatim>\<open>NaN\<close>
  velocity and next position).
\<close>

theorem rollAroundCap_is_spec:
  "rollAroundCap cap b = rollAroundCap_spec cap b"
  by (simp add: rollAroundCap_def rollAroundCap_spec_def distance2D_def Let_def
      split: option.splits)

lemma getAngle_vertical:
  "ptX p1 = ptX p2 \<Longrightarrow> ptY p1 \<noteq> ptY p2 \<Longrightarrow>
   getAngle p1 p2 = Some (if ptY p1 < ptY p2 then pi / 2 else - (pi / 2))"
  by (simp add: getAngle_def js_divide_def)

lemma getAngle_regression: "getAngle \<lparr>ptX = 0, ptY = 0\<rparr> \<lparr>ptX = - 1, ptY = 0\<rparr> = Some pi"
  by (simp add: getAngle_def js_divide_def)

subsection \<open>Balls do not interact\<close>

text \<open>
  C10. In one call of \<^verbatim>\<open>main\<close>, the state of a ball after the call is determined by its
  state before, the tilt reading, the previous timestamp, the progress flag and the
  timestamp: two states that agree on these and on that ball give the same ball,
  whatever the other balls are.
\<close>

theorem ball_noninterference:
  assumes "i < length (balls s)" and "i < length (balls s')"
    and "balls s ! i = balls s' ! i"
    and "tiltReading s = tiltReading s'"
    and "previousTimestamp s = previousTimestamp s'"
    and "gameInProgress s = gameInProgress s'"
  shows "balls (fst (main t s)) ! i = balls (fst (main t s')) ! i"
proof (cases "gameInProgress s \<and> previousTimestamp s \<noteq> None")
  case False
  then show ?thesis
    using assms by (auto simp: main_def)
next
  case True
  then obtain p where p: "previousTimestamp s = Some p"
    by auto
  have "physics ((t - p) / 16) s ! i = physics ((t - p) / 16) s' ! i"
    using assms by (simp add: physics_def Let_def split: option.splits)
  then show ?thesis
    using True p assms by (simp add: balls_main)
qed

theorem ball_noninterference_witness:
  "balls (fst (main 16
      \<lparr>previousTimestamp = Some 0, gameInProgress = True,
       tiltReading = Some \<lparr>accelerationX = 0.06, accelerationY = 0, frictionX = 0.00008,
                           frictionY = 0.0001\<rparr>,
       balls = [Some \<lparr>ballX = 20, ballY = 20, velocityX = 0, velocityY = 0\<rparr>,
                Some \<lparr>ballX = 380, ballY = 20, velocityX = 0, velocityY = 0\<rparr>]\<rparr>)) ! 0
   = balls (fst (main 16
      \<lparr>previousTimestamp = Some 0, gameInProgress = True,
       tiltReading = Some \<lparr>accelerationX = 0.06, accelerationY = 0, frictionX = 0.00008,
                           frictionY = 0.0001\<rparr>,
       balls = [Some \<lparr>ballX = 20, ballY = 20, velocityX = 0, velocityY = 0\<rparr>,
                Some \<lparr>ballX = 200, ballY = 200, velocityX = 0.1, velocityY = 0.2\<rparr>,
                None]\<rparr>)) ! 0"
  by (rule ball_noninterference) simp_all

subsection \<open>Hitting the body of a vertical wall from the left\<close>

lemma body_hit_from_left:
  assumes "\<not> horizontal w"
    and "wallX w - wallWidth / 2 \<le> nextX m + ballSize / 2" and "nextX m < wallX w"
    and "wallY w \<le> nextY m" and "nextY m \<le> wallY w + wallLength w"
  shows "hitWall w m =
     Some (m\<lparr>nextX := wallX w - wallWidth / 2 - ballSize / 2,
             ballX := wallX w - wallWidth / 2 - ballSize / 2,
             velocityX := - velocityX m / 6\<rparr>)"
  using assms by (simp add: hit_defs Let_def)

lemma untouched_hitWall:
  assumes "\<not> capHit w b" and "\<not> bodyHit w b"
  shows "hitWall w b = Some b"
proof (cases "horizontal w")
  case True
  then show ?thesis
    using assms
    by (auto simp: hitWall_def hitHorizontal_def capHit_def bodyHit_def capTest_def Let_def)
next
  case False
  then show ?thesis
    using assms
    by (auto simp: hitWall_def hitVertical_def capHit_def bodyHit_def capTest_def Let_def)
qed

lemma untouched_hitWalls: "untouched ws b \<Longrightarrow> hitWalls ws b = Some b"
  by (induction ws) (simp_all add: untouched_def untouched_hitWall)

lemma hitWalls_append:
  "hitWalls (xs @ ys) b = (case hitWalls xs b of None \<Rightarrow> None | Some b' \<Rightarrow> hitWalls ys b')"
  by (induction xs arbitrary: b) (simp_all split: option.splits)

lemma untouched_next:
  "nextX b = nextX b' \<Longrightarrow> nextY b = nextY b' \<Longrightarrow> untouched ws b = untouched ws b'"
  by (simp add: untouched_def capHit_def bodyHit_def)

lemma walls_around:
  "walls = take 35 walls @ \<lparr>wallX = 120, wallY = 40, horizontal = False, wallLength = 40\<rparr>
     # drop 36 walls"
  by (simp add: walls_eq)

lemma approaching_tick:
  "moveBall 0 0 0 0 approaching =
     Some \<lparr>ballX = 109.95, ballY = 60, velocityX = - 0.05, velocityY = 0\<rparr>"
  apply (simp add: moveBall_def moveBallOver_def update_defs walls_eq approaching_def)
  apply (simp add: hit_defs)
  apply (simp add: commit_def)
  done

lemma approachingJunction_tick:
  "moveBall 0 0 0 0 approachingJunction =
     Some \<lparr>ballX = 110 + 0.05 / 6, ballY = 80, velocityX = 0.05 / 6, velocityY = 0\<rparr>"
  apply (simp add: moveBall_def moveBallOver_def update_defs walls_eq approachingJunction_def)
  apply (simp add: hit_defs)
  apply (simp add: commit_def)
  done

text \<open>
  C5, as stated, fails: in the maze, the ball at (109.9, 60) with velocity (0.3, 0), whose
  next position (110.2, 60) is in the strip and in the span of the vertical wall from
  (120, 40) to (120, 80), is at x = 109.95 after the tick, not at 120 - 10 = 110. The
  ball at (109.9, 80) with the same velocity, whose next position (110.2, 80) is in the
  strip and in the span of the same wall, is pushed out to x = 110 by that wall; there
  the body test of the wall from (120, 80) to (120, 120) passes as well, and the ball
  leaves the tick at x = 110 + 0.05/6 with velocityX = 0.05/6, not -0.05.
\<close>

theorem body_hit_moves_past_resting_place:
  "\<lparr>wallX = 120, wallY = 40, horizontal = False, wallLength = 40\<rparr> \<in> set walls
   \<and> accelerate 0 0 0 0 approaching =
       \<lparr>ballX = 109.9, ballY = 60, velocityX = 0.3, velocityY = 0,
        nextX = 110.2, nextY = 60\<rparr>
   \<and> moveBall 0 0 0 0 approaching =
       Some \<lparr>ballX = 109.95, ballY = 60, velocityX = - 0.05, velocityY = 0\<rparr>
   \<and> map_option ballX (moveBall 0 0 0 0 approaching)
       \<noteq> Some (120 - wallWidth / 2 - ballSize / 2)
   \<and> accelerate 0 0 0 0 approachingJunction =
       \<lparr>ballX = 109.9, ballY = 80, velocityX = 0.3, velocityY = 0,
        nextX = 110.2, nextY = 80\<rparr>
   \<and> bodyHit \<lparr>wallX = 120, wallY = 40, horizontal = False, wallLength = 40\<rparr>
       (accelerate 0 0 0 0 approachingJunction)
   \<and> bodyHit \<lparr>wallX = 120, wallY = 80, horizontal = False, wallLength = 40\<rparr>
       ((accelerate 0 0 0 0 approachingJunction)\<lparr>nextX := 120 - wallWidth / 2 - ballSize / 2\<rparr>)
   \<and> moveBall 0 0 0 0 approachingJunction =
       Some \<lparr>ballX = 110 + 0.05 / 6, ballY = 80, velocityX = 0.05 / 6, velocityY = 0\<rparr>"
proof -
  have "\<lparr>wallX = 120, wallY = 40, horizontal = False, wallLength = 40\<rparr> \<in> set walls"
    by (simp add: walls_eq)
  moreover have "accelerate 0 0 0 0 approaching =
       \<lparr>ballX = 109.9, ballY = 60, velocityX = 0.3, velocityY = 0,
        nextX = 110.2, nextY = 60\<rparr>"
    by (simp add: update_defs approaching_def)
  moreover have "map_option ballX (moveBall 0 0 0 0 approaching)
       \<noteq> Some (120 - wallWidth / 2 - ballSize / 2)"
    unfolding approaching_tick by (simp add: wallWidth_def ballSize_def)
  moreover have "accelerate 0 0 0 0 approachingJunction =
       \<lparr>ballX = 109.9, ballY = 80, velocityX = 0.3, velocityY = 0,
        nextX = 110.2, nextY = 80\<rparr>"
    by (simp add: update_defs approachingJunction_def)
  moreover have "bodyHit \<lparr>wallX = 120, wallY = 40, horizontal = False, wallLength = 40\<rparr>
       (accelerate 0 0 0 0 approachingJunction)"
    by (simp add: update_defs approachingJunction_def bodyHit_def wallWidth_def ballSize_def)
  moreover have "bodyHit \<lparr>wallX = 120, wallY = 80, horizontal = False, wallLength = 40\<rparr>
       ((accelerate 0 0 0 0 approachingJunction)\<lparr>nextX := 120 - wallWidth / 2 - ballSize / 2\<rparr>)"
    by (simp add: update_defs approachingJunction_def bodyHit_def wallWidth_def ballSize_def)
  ultimately show ?thesis
    using approaching_tick approachingJunction_tick by blast
qed

text \<open>
  C5, amended. When the velocity of a ball after the velocity update is (0.3, 0), its next
  position is in the strip of a vertical wall, left of its centerline and between its two
  ends, and no other wall is touched in the tick (no cap deflection and no body test at
  the walls tested before this wall, at the next position, nor at the walls tested after
  it, at the next position that this wall sets), then the body test puts the ball at
  x = wall.x - wallWidth/2 - ballSize/2 and makes its velocityX -0.05; the commit then
  adds this velocity, so after the tick the ball is at
  x = wall.x - wallWidth/2 - ballSize/2 - 0.05 with velocityX = -0.05. The list \<open>ws\<close> is
  any list of walls with the wall in it, the walls of the script in particular.
\<close>

theorem body_hit_from_left_then_commit:
  assumes "ws = before @ w # after"
    and "\<not> horizontal w"
    and "velocityX (accelerate vcx vcy fdx fdy b) = 0.3"
    and "velocityY (accelerate vcx vcy fdx fdy b) = 0"
    and "wallX w - wallWidth / 2 \<le> nextX (accelerate vcx vcy fdx fdy b) + ballSize / 2"
    and "nextX (accelerate vcx vcy fdx fdy b) < wallX w"
    and "wallY w \<le> nextY (accelerate vcx vcy fdx fdy b)"
    and "nextY (accelerate vcx vcy fdx fdy b) \<le> wallY w + wallLength w"
    and "untouched before (accelerate vcx vcy fdx fdy b)"
    and "untouched after
           ((accelerate vcx vcy fdx fdy b)\<lparr>nextX := wallX w - wallWidth / 2 - ballSize / 2\<rparr>)"
  shows "map_option ballX (hitWall w (accelerate vcx vcy fdx fdy b)) =
           Some (wallX w - wallWidth / 2 - ballSize / 2)
       \<and> map_option velocityX (hitWall w (accelerate vcx vcy fdx fdy b)) = Some (- 0.05)
       \<and> moveBallOver ws vcx vcy fdx fdy b =
           Some \<lparr>ballX = wallX w - wallWidth / 2 - ballSize / 2 - 0.05, ballY = ballY b,
                  velocityX = - 0.05, velocityY = 0\<rparr>"
proof -
  let ?m = "accelerate vcx vcy fdx fdy b"
  let ?n = "wallX w - wallWidth / 2 - ballSize / 2"
  let ?m' = "?m\<lparr>nextX := ?n, ballX := ?n, velocityX := - velocityX ?m / 6\<rparr>"
  have y: "ballY ?m = ballY b"
    by (simp add: accelerate_def Let_def)
  have 1: "hitWalls before ?m = Some ?m"
    using assms(9) by (rule untouched_hitWalls)
  have 2: "hitWall w ?m = Some ?m'"
    using assms(2) assms(5-8) by (rule body_hit_from_left)
  have "untouched after ?m'"
    using assms(10) untouched_next [of ?m' "?m\<lparr>nextX := ?n\<rparr>" after] by simp
  then have 3: "hitWalls after ?m' = Some ?m'"
    by (rule untouched_hitWalls)
  have "hitWalls ws ?m = Some ?m'"
    unfolding assms(1) hitWalls_append 1 using 2 3 by simp
  then show ?thesis
    using 2 y assms(3,4) by (simp add: moveBallOver_def commit_def)
qed

theorem body_hit_from_left_then_commit_witness:
  "walls = take 35 walls @ \<lparr>wallX = 120, wallY = 40, horizontal = False, wallLength = 40\<rparr>
     # drop 36 walls
   \<and> untouched (take 35 walls) (accelerate 0 0 0 0 approaching)
   \<and> untouched (drop 36 walls) ((accelerate 0 0 0 0 approaching)\<lparr>nextX := 110\<rparr>)
   \<and> map_option ballX
       (hitWall \<lparr>wallX = 120, wallY = 40, horizontal = False, wallLength = 40\<rparr>
          (accelerate 0 0 0 0 approaching)) = Some 110
   \<and> moveBallOver walls 0 0 0 0 approaching =
       Some \<lparr>ballX = 109.95, ballY = 60, velocityX = - 0.05, velocityY = 0\<rparr>"
proof -
  have 1: "untouched (take 35 walls) (accelerate 0 0 0 0 approaching)"
    apply (simp add: walls_eq update_defs approaching_def untouched_def)
    apply (simp add: capHit_def bodyHit_def wallWidth_def ballSize_def)
    done
  have 2: "untouched (drop 36 walls) ((accelerate 0 0 0 0 approaching)\<lparr>nextX := 110\<rparr>)"
    apply (simp add: walls_eq update_defs approaching_def untouched_def)
    apply (simp add: capHit_def bodyHit_def wallWidth_def ballSize_def)
    done
  have 3: "untouched (drop 36 walls)
      ((accelerate 0 0 0 0 approaching)
         \<lparr>nextX := wallX \<lparr>wallX = 120, wallY = 40, horizontal = False, wallLength = 40\<rparr>
            - wallWidth / 2 - ballSize / 2\<rparr>)"
    using 2 by (simp add: wallWidth_def ballSize_def)
  show ?thesis
    using body_hit_from_left_then_commit [OF walls_around _ _ _ _ _ _ _ 1 3] 1 2 walls_around
    by (simp add: update_defs approaching_def wallWidth_def ballSize_def)
qed

subsection \<open>Winning\<close>

lemma centred_tick: "moveBall 0 0 0.0001 0.0001 centred = Some centred1"
  apply (simp add: moveBall_def moveBallOver_def update_defs walls_eq centred_def centred1_def)
  apply (simp add: hit_defs)
  apply (simp add: commit_def)
  done

lemma centred1_tick: "moveBall 0 0 0.0002 0.0002 centred1 = Some centred2"
  apply (simp add: moveBall_def moveBallOver_def update_defs walls_eq centred1_def centred2_def)
  apply (simp add: hit_defs)
  apply (simp add: commit_def)
  done

lemma inGoal_centred1: "inGoal (Some centred1)"
  by (simp add: inGoal_def distance2D_def sqrt_less_iff centred1_def)

lemma physics_aboutToWin:
  "physics ((16 - 0) / 16) aboutToWin =
     [Some centred1, Some centred1, Some centred1, Some centred1]"
  using centred_tick by (simp add: aboutToWin_def physics_def Let_def flat_def)

lemma main_aboutToWin:
  "main 16 aboutToWin =
     (aboutToWin\<lparr>gameInProgress := False,
                 balls := [Some centred1, Some centred1, Some centred1, Some centred1]\<rparr>,
      False)"
proof -
  have "gameInProgress aboutToWin" and "previousTimestamp aboutToWin = Some 0"
    by (simp_all add: aboutToWin_def)
  then show ?thesis
    using physics_aboutToWin inGoal_centred1 by (simp add: main_def Let_def)
qed

lemma restart_after_win:
  "balls (run (fst (main 16 aboutToWin)) [Start, Frame 32]) =
     [Some centred2, Some centred2, Some centred2, Some centred2]"
proof -
  define s2 where
    "s2 = aboutToWin\<lparr>gameInProgress := True,
                     balls := [Some centred1, Some centred1, Some centred1, Some centred1]\<rparr>"
  have a: "step (fst (main 16 aboutToWin)) Start = s2"
    by (simp add: main_aboutToWin startGame_def s2_def)
  have "physics ((32 - 0) / 16) s2 = [Some centred2, Some centred2, Some centred2, Some centred2]"
    using centred1_tick by (simp add: s2_def aboutToWin_def physics_def Let_def flat_def)
  moreover have "gameInProgress s2" and "previousTimestamp s2 = Some 0"
    by (simp_all add: s2_def aboutToWin_def)
  ultimately have "balls (fst (main 32 s2)) =
      [Some centred2, Some centred2, Some centred2, Some centred2]"
    using balls_main [of s2 0 32] by simp
  then show ?thesis
    using a by (simp add: run_def)
qed

lemma quiet_step:
  "\<not> gameInProgress s \<Longrightarrow> e \<noteq> Start \<Longrightarrow> e \<noteq> Reset \<Longrightarrow>
   \<not> gameInProgress (step s e) \<and> balls (step s e) = balls s"
  by (cases e) (simp_all add: handleDeviceOrientation_def main_def)

lemma quiet_run:
  "\<not> gameInProgress s \<Longrightarrow> Start \<notin> set es \<Longrightarrow> Reset \<notin> set es \<Longrightarrow>
   \<not> gameInProgress (run s es) \<and> balls (run s es) = balls s"
proof (induction es arbitrary: s)
  case Nil
  then show ?case by (simp add: run_def)
next
  case (Cons e es)
  then have "\<not> gameInProgress (step s e) \<and> balls (step s e) = balls s"
    using quiet_step [of s e] by auto
  then show ?case
    using Cons.IH [of "step s e"] Cons.prems by (simp add: run_def)
qed

text \<open>
  C7, as stated, fails: the game \<open>aboutToWin\<close> is won by the tick at 16 ms; a click on
  Start and the next frame, with no reset in between, move the four balls.
\<close>

theorem start_after_win_moves_balls:
  "gameInProgress aboutToWin
   \<and> list_all inGoal (balls (fst (main 16 aboutToWin)))
   \<and> gameInProgress (fst (main 16 aboutToWin)) = False
   \<and> Reset \<notin> set [Start, Frame 32]
   \<and> balls (run (fst (main 16 aboutToWin)) [Start, Frame 32])
       \<noteq> balls (fst (main 16 aboutToWin))"
proof -
  have 1: "balls (fst (main 16 aboutToWin)) =
      [Some centred1, Some centred1, Some centred1, Some centred1]"
    and 2: "gameInProgress (fst (main 16 aboutToWin)) = False"
    by (simp_all add: main_aboutToWin)
  have 3: "centred2 \<noteq> centred1"
    by (simp add: centred1_def centred2_def)
  have 4: "gameInProgress aboutToWin"
    by (simp add: aboutToWin_def)
  show ?thesis
    unfolding restart_after_win 1 2 using 3 4 inGoal_centred1 by simp
qed

text \<open>
  C7, amended. When the win check of a tick finds every ball within 75/2 of (200, 200)
  (strictly, as the script compares), \<^verbatim>\<open>main\<close> clears \<^verbatim>\<open>gameInProgress\<close> and requests
  no frame; and every later call of \<^verbatim>\<open>main\<close> and of \<^verbatim>\<open>handleDeviceOrientation\<close>
  leaves the balls as they are, until \<^verbatim>\<open>startGame\<close> or \<^verbatim>\<open>resetGame\<close> is called.
\<close>

theorem won_game_stays_still_until_start_or_reset:
  assumes "gameInProgress s" and "previousTimestamp s = Some p"
    and "list_all inGoal (physics ((t - p) / 16) s)"
    and "Start \<notin> set es" and "Reset \<notin> set es"
  shows "\<not> gameInProgress (fst (main t s)) \<and> \<not> snd (main t s)
       \<and> balls (run (fst (main t s)) es) = balls (fst (main t s))
       \<and> \<not> gameInProgress (run (fst (main t s)) es)"
proof -
  have "\<not> gameInProgress (fst (main t s)) \<and> \<not> snd (main t s)"
    using assms(1-3) by (simp add: main_def Let_def)
  then show ?thesis
    using quiet_run [of "fst (main t s)" es] assms(4,5) by simp
qed

theorem won_game_stays_still_until_start_or_reset_witness:
  "list_all inGoal (physics ((16 - 0) / 16) aboutToWin)
   \<and> \<not> gameInProgress (fst (main 16 aboutToWin))
   \<and> balls (run (fst (main 16 aboutToWin)) [Orientation 10 20, Frame 32, Frame 48]) =
       balls (fst (main 16 aboutToWin))"
proof -
  have a: "list_all inGoal (physics ((16 - 0) / 16) aboutToWin)"
    unfolding physics_aboutToWin using inGoal_centred1 by simp
  have "gameInProgress aboutToWin" and "previousTimestamp aboutToWin = Some 0"
    by (simp_all add: aboutToWin_def)
  then show ?thesis
    using a won_game_stays_still_until_start_or_reset
      [of aboutToWin 0 16 "[Orientation 10 20, Frame 32, Frame 48]"]
    by simp
qed

subsection \<open>Velocity bounds\<close>

lemma no_cap_hitWall:
  assumes "\<not> capHit w b"
  shows "\<exists>b'. hitWall w b = Some b' \<and> \<bar>velocityX b'\<bar> \<le> \<bar>velocityX b\<bar>
           \<and> \<bar>velocityY b'\<bar> \<le> \<bar>velocityY b\<bar>"
proof (cases "horizontal w")
  case True
  then show ?thesis
    using assms by (auto simp: hitWall_def hitHorizontal_def capHit_def capTest_def Let_def)
next
  case False
  then show ?thesis
    using assms by (auto simp: hitWall_def hitVertical_def capHit_def capTest_def Let_def)
qed

lemma no_cap_hitWalls:
  "noCapHits ws b \<Longrightarrow>
   \<exists>b'. hitWalls ws b = Some b' \<and> \<bar>velocityX b'\<bar> \<le> \<bar>velocityX b\<bar>
      \<and> \<bar>velocityY b'\<bar> \<le> \<bar>velocityY b\<bar>"
proof (induction ws arbitrary: b)
  case Nil
  then show ?case by simp
next
  case (Cons w ws)
  from Cons.prems have "\<not> capHit w b"
    by simp
  then obtain b1 where b1: "hitWall w b = Some b1" "\<bar>velocityX b1\<bar> \<le> \<bar>velocityX b\<bar>"
      "\<bar>velocityY b1\<bar> \<le> \<bar>velocityY b\<bar>"
    using no_cap_hitWall by blast
  with Cons.prems have "noCapHits ws b1"
    by simp
  then obtain b' where "hitWalls ws b1 = Some b'" "\<bar>velocityX b'\<bar> \<le> \<bar>velocityX b1\<bar>"
      "\<bar>velocityY b'\<bar> \<le> \<bar>velocityY b1\<bar>"
    using Cons.IH by blast
  then show ?case
    using b1 by auto
qed

lemma minmax_bound: "0 \<le> l \<Longrightarrow> \<bar>Math_minmax v l\<bar> \<le> l"
  by (auto simp: Math_minmax_def)

lemma slow_negative_difference: "slow 0.1 (- 0.01) = 0.11"
  by (simp add: slow_def)

subsection \<open>A deflection around the cap at (80, 120)\<close>

lemma sqrt_25_9: "sqrt (25 / 9) = 5 / 3"
  by (rule real_sqrt_unique) (simp_all add: power2_eq_square)

lemma trig_impact:
  "cos (arctan (- (4 / 3))) = 3 / 5" "sin (arctan (- (4 / 3))) = - (4 / 5)"
  by (simp_all add: cos_arctan sin_arctan power2_eq_square sqrt_25_9)

lemma heading_components:
  assumes "0 < (vx::real)"
  shows "sqrt (vx\<^sup>2 + vy\<^sup>2) * cos (arctan (vy / vx)) = vx"
    and "sqrt (vx\<^sup>2 + vy\<^sup>2) * sin (arctan (vy / vx)) = vy"
proof -
  have "1 + (vy / vx)\<^sup>2 = (vx\<^sup>2 + vy\<^sup>2) / vx\<^sup>2"
    using assms by (simp add: field_simps power2_eq_square)
  then have s: "sqrt (1 + (vy / vx)\<^sup>2) = sqrt (vx\<^sup>2 + vy\<^sup>2) / vx"
    using assms by (simp add: real_sqrt_divide)
  have pos: "0 < sqrt (vx\<^sup>2 + vy\<^sup>2)"
    using assms by (simp add: sum_power2_gt_zero_iff)
  show "sqrt (vx\<^sup>2 + vy\<^sup>2) * cos (arctan (vy / vx)) = vx"
    using assms pos by (simp add: cos_arctan s)
  show "sqrt (vx\<^sup>2 + vy\<^sup>2) * sin (arctan (vy / vx)) = vy"
    using assms pos by (simp add: sin_arctan s)
qed

lemma tangential_component:
  assumes "0 < (vx::real)"
  shows "sin (arctan (- (4 / 3)) + pi - arctan (vy / vx)) * sqrt (vx\<^sup>2 + vy\<^sup>2) =
     (4 * vx + 3 * vy) / 5"
proof -
  have "sin (arctan (- (4 / 3)) + pi - arctan (vy / vx)) =
     4 / 5 * cos (arctan (vy / vx)) + 3 / 5 * sin (arctan (vy / vx))"
    by (simp add: sin_diff sin_add cos_add trig_impact del: arctan_minus)
  then show ?thesis
    using heading_components [OF assms, of vy] by (simp add: algebra_simps)
qed

lemma rotated_offset:
  "cos (arctan (- (4 / 3)) + pi + pi - arctan r) * 10 = (6 - 8 * r) / sqrt (1 + r\<^sup>2)"
  "sin (arctan (- (4 / 3)) + pi + pi - arctan r) * 10 = - (8 + 6 * r) / sqrt (1 + r\<^sup>2)"
proof -
  have e: "arctan (- (4 / 3)) + pi + pi - arctan r = (arctan (- (4 / 3)) - arctan r) + 2 * pi"
    by simp
  have c: "cos (arctan r) = 1 / sqrt (1 + r\<^sup>2)"
    by (rule cos_arctan)
  have s: "sin (arctan r) = r / sqrt (1 + r\<^sup>2)"
    by (rule sin_arctan)
  have pos: "0 < sqrt (1 + r\<^sup>2)"
    by (simp add: add_pos_nonneg)
  show "cos (arctan (- (4 / 3)) + pi + pi - arctan r) * 10 = (6 - 8 * r) / sqrt (1 + r\<^sup>2)"
    unfolding e cos_periodic cos_diff trig_impact c s
    using pos by (simp add: field_simps)
  show "sin (arctan (- (4 / 3)) + pi + pi - arctan r) * 10 = - (8 + 6 * r) / sqrt (1 + r\<^sup>2)"
    unfolding e sin_periodic sin_diff trig_impact c s
    using pos by (simp add: field_simps)
qed

lemma rollAroundCap_Some:
  assumes "getAngle \<lparr>ptX = bx, ptY = by'\<rparr> cap = Some i"
    and "getAngle \<lparr>ptX = 0, ptY = 0\<rparr> \<lparr>ptX = vx, ptY = vy\<rparr> = Some h"
    and "r = sin (i - h) * sqrt (vx\<^sup>2 + vy\<^sup>2) / 10"
    and "dx = cos (i + pi - arctan r) * 10"
    and "dy = sin (i + pi - arctan r) * 10"
  shows "rollAroundCap cap \<lparr>ballX = bx, ballY = by', velocityX = vx, velocityY = vy\<rparr> =
     Some \<lparr>ballX = bx, ballY = by', velocityX = bx - (ptX cap + dx),
           velocityY = by' - (ptY cap + dy),
           nextX = bx + (bx - (ptX cap + dx)), nextY = by' + (by' - (ptY cap + dy))\<rparr>"
  by (simp add: rollAroundCap_def distance2D_def Let_def wallWidth_def ballSize_def assms)

lemma roll_from_upper_right:
  assumes "0 < vx" and "r = (4 * vx + 3 * vy) / 50" and "s = sqrt (1 + r\<^sup>2)"
  shows "rollAroundCap \<lparr>ptX = cx, ptY = cy\<rparr>
           \<lparr>ballX = cx + 6, ballY = cy - 8, velocityX = vx, velocityY = vy\<rparr> =
     Some \<lparr>ballX = cx + 6, ballY = cy - 8,
           velocityX = 6 - (6 - 8 * r) / s,
           velocityY = (8 + 6 * r) / s - 8,
           nextX = cx + 12 - (6 - 8 * r) / s,
           nextY = cy - 16 + (8 + 6 * r) / s\<rparr>"
proof -
  have i: "getAngle \<lparr>ptX = cx + 6, ptY = cy - 8\<rparr> \<lparr>ptX = cx, ptY = cy\<rparr> =
      Some (arctan (- (4 / 3)) + pi)"
    by (simp add: getAngle_def js_divide_def del: arctan_minus)
  have h: "getAngle \<lparr>ptX = 0, ptY = 0\<rparr> \<lparr>ptX = vx, ptY = vy\<rparr> = Some (arctan (vy / vx))"
    using assms by (simp add: getAngle_def js_divide_def)
  have d: "r = sin (arctan (- (4 / 3)) + pi - arctan (vy / vx)) * sqrt (vx\<^sup>2 + vy\<^sup>2) / 10"
    unfolding tangential_component [OF assms(1)] assms(2) by simp
  have dx: "(6 - 8 * r) / s = cos (arctan (- (4 / 3)) + pi + pi - arctan r) * 10"
    and dy: "- (8 + 6 * r) / s = sin (arctan (- (4 / 3)) + pi + pi - arctan r) * 10"
    unfolding assms(3) rotated_offset by simp_all
  show ?thesis
    unfolding rollAroundCap_Some [OF i h d dx dy]
    by (auto simp: divide_simps algebra_simps)
qed

lemma closest_upper_right:
  "closestItCanBe \<lparr>ptX = 80, ptY = 120\<rparr> \<lparr>ptX = 85.97, ptY = 112.04\<rparr> =
     Some \<lparr>ptX = 86, ptY = 112\<rparr>"
proof -
  have "getAngle \<lparr>ptX = 80, ptY = 120\<rparr> \<lparr>ptX = 85.97, ptY = 112.04\<rparr> =
      Some (arctan (- (4 / 3)))"
    by (simp add: getAngle_def js_divide_def del: arctan_minus)
  then show ?thesis
    by (simp add: closestItCanBe_def trig_impact wallWidth_def ballSize_def del: arctan_minus)
qed

lemma capTest_upper_right:
  assumes "0 < vx" and "r = (4 * vx + 3 * vy) / 50" and "s = sqrt (1 + r\<^sup>2)"
  shows "capTest \<lparr>ptX = 80, ptY = 120\<rparr>
           \<lparr>ballX = bx, ballY = by', velocityX = vx, velocityY = vy,
            nextX = 85.97, nextY = 112.04\<rparr> =
     Some \<lparr>ballX = 86, ballY = 112,
           velocityX = 6 - (6 - 8 * r) / s,
           velocityY = (8 + 6 * r) / s - 8,
           nextX = 92 - (6 - 8 * r) / s,
           nextY = 104 + (8 + 6 * r) / s\<rparr>"
proof -
  have dist: "distance2D \<lparr>ptX = 80, ptY = 120\<rparr> \<lparr>ptX = 85.97, ptY = 112.04\<rparr>
      < ballSize / 2 + wallWidth / 2"
    by (simp add: distance2D_def sqrt_less_iff power2_eq_square wallWidth_def ballSize_def)
  show ?thesis
    using dist closest_upper_right roll_from_upper_right [OF assms, of 80 120]
    by (simp add: capTest_def)
qed

lemma walls_with_one_cap_hit:
  assumes "capTest \<lparr>ptX = 80, ptY = 120\<rparr>
             \<lparr>ballX = bx, ballY = by', velocityX = vx, velocityY = vy,
              nextX = 85.97, nextY = 112.04\<rparr> = Some m1"
    and "86 < nextX m1" and "nextX m1 < 87" and "112 < nextY m1" and "nextY m1 < 113"
  shows "hitWalls walls
           \<lparr>ballX = bx, ballY = by', velocityX = vx, velocityY = vy,
            nextX = 85.97, nextY = 112.04\<rparr> = Some m1"
  using assms
  apply (simp add: walls_eq)
  apply (simp add: hit_defs)
  done

lemma sqrt_near_one:
  assumes "0 \<le> r" and "r \<le> 0.04" and "s = sqrt (1 + r\<^sup>2)"
  shows "1 \<le> s" and "s \<le> 1.001"
proof -
  show "1 \<le> s"
    unfolding assms(3) by simp
  have "r\<^sup>2 \<le> 0.04\<^sup>2"
    using assms(1,2) by (intro power_mono) simp_all
  then have "1 + r\<^sup>2 \<le> 1.001\<^sup>2"
    by (simp add: power2_eq_square)
  then show "s \<le> 1.001"
    unfolding assms(3) by (intro real_le_lsqrt) simp_all
qed

lemma deflected_tick:
  assumes "0 < vx" and "r = (4 * vx + 3 * vy) / 50" and "s = sqrt (1 + r\<^sup>2)"
    and "0.002 \<le> r" and "r \<le> 0.04"
  shows "hitWalls walls
           \<lparr>ballX = bx, ballY = by', velocityX = vx, velocityY = vy,
            nextX = 85.97, nextY = 112.04\<rparr> =
     Some \<lparr>ballX = 86, ballY = 112,
           velocityX = 6 - (6 - 8 * r) / s,
           velocityY = (8 + 6 * r) / s - 8,
           nextX = 92 - (6 - 8 * r) / s,
           nextY = 104 + (8 + 6 * r) / s\<rparr>"
    and "8 * r \<le> 6 - (6 - 8 * r) / s"
proof -
  have r0: "0 \<le> r"
    using assms(4) by simp
  note s = sqrt_near_one [OF r0 assms(5) assms(3)]
  then have s0: "0 < s"
    by simp
  have a: "(6 - 8 * r) / s \<le> 6 - 8 * r"
    using s assms(5) divide_left_mono [of 1 s "6 - 8 * r"] by simp
  have b: "5 < (6 - 8 * r) / s"
    using s assms(4,5) by (simp add: pos_less_divide_eq s0)
  have c: "(8 + 6 * r) / s < 9"
    using s assms(4,5) by (simp add: pos_divide_less_eq s0)
  have d: "8 < (8 + 6 * r) / s"
    using s assms(4,5) by (simp add: pos_less_divide_eq s0)
  show "8 * r \<le> 6 - (6 - 8 * r) / s"
    using a by simp
  show "hitWalls walls
           \<lparr>ballX = bx, ballY = by', velocityX = vx, velocityY = vy,
            nextX = 85.97, nextY = 112.04\<rparr> =
     Some \<lparr>ballX = 86, ballY = 112,
           velocityX = 6 - (6 - 8 * r) / s,
           velocityY = (8 + 6 * r) / s - 8,
           nextX = 92 - (6 - 8 * r) / s,
           nextY = 104 + (8 + 6 * r) / s\<rparr>"
    using a b c d assms(4)
    by (intro walls_with_one_cap_hit capTest_upper_right [OF assms(1-3)]) simp_all
qed

lemma grazing_tick:
  shows "map_option velocityX (moveBall 0.3 0.3 0.0004 0.0004 grazing) =
     Some (6 - 5.72 / sqrt 1.001225)"
    and "maxVelocity < 6 - 5.72 / sqrt 1.001225"
proof -
  have acc: "accelerate 0.3 0.3 0.0004 0.0004 grazing =
      \<lparr>ballX = 85.72, ballY = 111.79, velocityX = 0.25, velocityY = 0.25,
       nextX = 85.97, nextY = 112.04\<rparr>"
    by (simp add: update_defs grazing_def)
  have r: "(0.035::real) = (4 * 0.25 + 3 * 0.25) / 50"
    by simp
  have s: "sqrt 1.001225 = sqrt (1 + 0.035\<^sup>2)"
    by (simp add: power2_eq_square)
  have pos: "(0::real) < 0.25" and lo: "(0.002::real) \<le> 0.035" and hi: "(0.035::real) \<le> 0.04"
    by simp_all
  note t1 = deflected_tick(1) [OF pos r s lo hi, where bx = "85.72" and by' = "111.79"]
  note t2 = deflected_tick(2) [OF pos r s lo hi]
  have "8 * 0.035 \<le> 6 - (6 - 8 * 0.035) / sqrt 1.001225"
    using t2 by simp
  then show "maxVelocity < 6 - 5.72 / sqrt 1.001225"
    by (simp add: maxVelocity_def)
  show "map_option velocityX (moveBall 0.3 0.3 0.0004 0.0004 grazing) =
      Some (6 - 5.72 / sqrt 1.001225)"
    unfolding moveBall_def moveBallOver_def acc using t1 by (simp add: commit_def)
qed

lemma dropping_tick:
  shows "map_option velocityX (moveBall 0 0.3 0.0005 0.0004 dropping) =
     Some (6 - 5.87392 / sqrt 1.0002483776)"
    and "\<bar>velocityX dropping\<bar> < 6 - 5.87392 / sqrt 1.0002483776"
proof -
  have acc: "accelerate 0 0.3 0.0005 0.0004 dropping =
      \<lparr>ballX = 85.9605, ballY = 111.79, velocityX = 0.0095, velocityY = 0.25,
       nextX = 85.97, nextY = 112.04\<rparr>"
    by (simp add: update_defs dropping_def)
  have r: "(0.01576::real) = (4 * 0.0095 + 3 * 0.25) / 50"
    by simp
  have s: "sqrt 1.0002483776 = sqrt (1 + 0.01576\<^sup>2)"
    by (simp add: power2_eq_square)
  have pos: "(0::real) < 0.0095" and lo: "(0.002::real) \<le> 0.01576"
    and hi: "(0.01576::real) \<le> 0.04"
    by simp_all
  note t1 = deflected_tick(1) [OF pos r s lo hi, where bx = "85.9605" and by' = "111.79"]
  note t2 = deflected_tick(2) [OF pos r s lo hi]
  have "8 * 0.01576 \<le> 6 - (6 - 8 * 0.01576) / sqrt 1.0002483776"
    using t2 by simp
  then show "\<bar>velocityX dropping\<bar> < 6 - 5.87392 / sqrt 1.0002483776"
    by (simp add: dropping_def)
  show "map_option velocityX (moveBall 0 0.3 0.0005 0.0004 dropping) =
      Some (6 - 5.87392 / sqrt 1.0002483776)"
    unfolding moveBall_def moveBallOver_def acc using t1 by (simp add: commit_def)
qed

lemma grazing_cap_hit:
  "capHit \<lparr>wallX = 80, wallY = 120, horizontal = False, wallLength = 40\<rparr>
     (accelerate 0.3 0.3 0.0004 0.0004 grazing)"
  by (simp add: update_defs grazing_def capHit_def distance2D_def sqrt_less_iff
      power2_eq_square wallWidth_def ballSize_def)

subsection \<open>The velocity after a tick\<close>

text \<open>
  C4, as stated, fails on a tick in which the ball is deflected around a cap. In the maze,
  with velocity change 0.3 and friction delta 0.0004 on both axes, the ball \<open>grazing\<close>
  hits the cap (80, 120) and leaves the tick with a velocityX above \<open>maxVelocity\<close>.
  With velocity change 0 and friction delta 0.0005 on the x axis, the ball \<open>dropping\<close>
  hits the same cap and leaves the tick with a velocityX above its velocityX before.
\<close>

theorem cap_deflection_exceeds_velocity_bounds:
  "capHit \<lparr>wallX = 80, wallY = 120, horizontal = False, wallLength = 40\<rparr>
     (accelerate 0.3 0.3 0.0004 0.0004 grazing)
   \<and> map_option velocityX (moveBall 0.3 0.3 0.0004 0.0004 grazing) =
       Some (6 - 5.72 / sqrt 1.001225)
   \<and> maxVelocity < \<bar>6 - 5.72 / sqrt 1.001225\<bar>
   \<and> map_option velocityX (moveBall 0 0.3 0.0005 0.0004 dropping) =
       Some (6 - 5.87392 / sqrt 1.0002483776)
   \<and> \<bar>velocityX dropping\<bar> < \<bar>6 - 5.87392 / sqrt 1.0002483776\<bar>"
proof -
  have "maxVelocity < \<bar>6 - 5.72 / sqrt 1.001225\<bar>"
    using grazing_tick(2) by linarith
  moreover have "\<bar>velocityX dropping\<bar> < \<bar>6 - 5.87392 / sqrt 1.0002483776\<bar>"
    using dropping_tick(2) by linarith
  ultimately show ?thesis
    using grazing_cap_hit grazing_tick(1) dropping_tick(1) by blast
qed

text \<open>
  C4, amended. After a tick in which no cap deflection happens to the ball (hits of wall
  bodies included): on an axis whose velocity change is not zero, the magnitude of the
  velocity is at most \<open>maxVelocity\<close>; on an axis whose velocity change is zero and whose
  friction delta is not negative, it is at most the magnitude before the tick. (A cap
  deflection replaces both components by the offset that \<^verbatim>\<open>rollAroundCap\<close> computes,
  which no clamp follows.)
\<close>

theorem velocity_bounded_without_cap_hit:
  assumes "noCapHits ws (accelerate vcx vcy fdx fdy b)"
  shows "\<exists>b'. moveBallOver ws vcx vcy fdx fdy b = Some b'
     \<and> (vcx \<noteq> 0 \<longrightarrow> \<bar>velocityX b'\<bar> \<le> maxVelocity)
     \<and> (vcy \<noteq> 0 \<longrightarrow> \<bar>velocityY b'\<bar> \<le> maxVelocity)
     \<and> (vcx = 0 \<and> 0 \<le> fdx \<longrightarrow> \<bar>velocityX b'\<bar> \<le> \<bar>velocityX b\<bar>)
     \<and> (vcy = 0 \<and> 0 \<le> fdy \<longrightarrow> \<bar>velocityY b'\<bar> \<le> \<bar>velocityY b\<bar>)"
proof -
  let ?m = "accelerate vcx vcy fdx fdy b"
  obtain m' where m': "hitWalls ws ?m = Some m'" "\<bar>velocityX m'\<bar> \<le> \<bar>velocityX ?m\<bar>"
      "\<bar>velocityY m'\<bar> \<le> \<bar>velocityY ?m\<bar>"
    using no_cap_hitWalls [OF assms] by blast
  have mv: "0 \<le> maxVelocity"
    by (simp add: maxVelocity_def)
  have x1: "vcx \<noteq> 0 \<Longrightarrow> \<bar>velocityX ?m\<bar> \<le> maxVelocity"
    by (simp add: accelerate_def updateVelocityX_def Let_def minmax_bound [OF mv])
  have y1: "vcy \<noteq> 0 \<Longrightarrow> \<bar>velocityY ?m\<bar> \<le> maxVelocity"
    by (simp add: accelerate_def updateVelocityY_def Let_def minmax_bound [OF mv])
  have x2: "vcx = 0 \<Longrightarrow> 0 \<le> fdx \<Longrightarrow> \<bar>velocityX ?m\<bar> \<le> \<bar>velocityX b\<bar>"
    by (simp add: accelerate_def updateVelocityX_def Let_def slow_abs_le)
  have y2: "vcy = 0 \<Longrightarrow> 0 \<le> fdy \<Longrightarrow> \<bar>velocityY ?m\<bar> \<le> \<bar>velocityY b\<bar>"
    by (simp add: accelerate_def updateVelocityY_def Let_def slow_abs_le)
  have "moveBallOver ws vcx vcy fdx fdy b = Some (commit m')"
    using m'(1) by (simp add: moveBallOver_def)
  moreover have "velocityX (commit m') = velocityX m'" "velocityY (commit m') = velocityY m'"
    by (simp_all add: commit_def)
  ultimately show ?thesis
    using m'(2,3) x1 y1 x2 y2 by (intro exI [of _ "commit m'"]) force
qed

subsection \<open>Separation from the walls\<close>

lemma sinking_tick: "moveBall 0 0.3 0.0005 0.0004 sinking = Some sunk"
  apply (simp add: moveBall_def moveBallOver_def update_defs walls_eq sinking_def sunk_def)
  apply (simp add: hit_defs)
  apply (simp add: commit_def)
  done

lemma sinking_no_cap_hit: "noCapHits walls (accelerate 0 0.3 0.0005 0.0004 sinking)"
  apply (simp add: update_defs walls_eq sinking_def)
  apply (simp add: hit_defs capHit_def)
  done

lemma sinking_separated:
  "list_all (\<lambda>w. separated w \<lparr>ptX = ballX sinking, ptY = ballY sinking\<rparr>) walls"
  apply (simp add: walls_eq sinking_def)
  apply (simp add: separated_def centerlineDistance_def capStart_def capEnd_def distance2D_def
      le_sqrt_iff wallWidth_def ballSize_def power2_eq_square)
  done

lemma sunk_too_close:
  "centerlineDistance \<lparr>wallX = 0, wallY = 40, horizontal = True, wallLength = 40\<rparr>
     \<lparr>ptX = ballX sunk, ptY = ballY sunk\<rparr> < wallWidth / 2 + ballSize / 2"
  by (simp add: centerlineDistance_def wallWidth_def ballSize_def sunk_def)

theorem velocity_bounded_without_cap_hit_witness:
  "noCapHits walls (accelerate 0 0.3 0.0005 0.0004 sinking)
   \<and> (\<exists>b'. moveBallOver walls 0 0.3 0.0005 0.0004 sinking = Some b'
         \<and> \<bar>velocityY b'\<bar> \<le> maxVelocity \<and> \<bar>velocityX b'\<bar> \<le> \<bar>velocityX sinking\<bar>)"
  using velocity_bounded_without_cap_hit [OF sinking_no_cap_hit] sinking_no_cap_hit
  by auto

subsection \<open>Runs of the page\<close>

lemma sqrt_16_25: "sqrt (16 / 25) = 4 / 5"
  by (rule real_sqrt_unique) (simp_all add: power2_eq_square)

lemma tilt_trig: "sin (arcsin (3 / 5)) = 3 / 5" "cos (arcsin (3 / 5)) = 4 / 5"
  by (simp_all add: cos_arcsin power2_eq_square sqrt_16_25)

lemma angle_conv:
  "tiltAngle * 0.8 / 180 * pi = arcsin (3 / 5)"
  "- tiltAngle * 0.8 / 180 * pi = - arcsin (3 / 5)"
  by (simp_all add: tiltAngle_def)

lemma orientation_right:
  "handleDeviceOrientation tiltAngle 0 s = s\<lparr>tiltReading := Some tiltedRight\<rparr>"
  using angle_conv by (simp add: handleDeviceOrientation_def tiltedRight_def Let_def tilt_trig)

lemma orientation_down:
  "handleDeviceOrientation 0 tiltAngle s = s\<lparr>tiltReading := Some tiltedDown\<rparr>"
  using angle_conv by (simp add: handleDeviceOrientation_def tiltedDown_def Let_def tilt_trig)

lemma orientation_left:
  "handleDeviceOrientation (- tiltAngle) 0 s = s\<lparr>tiltReading := Some tiltedLeft\<rparr>"
  using angle_conv by (simp add: handleDeviceOrientation_def tiltedLeft_def Let_def tilt_trig)

lemma orientation_up:
  "handleDeviceOrientation 0 (- tiltAngle) s = s\<lparr>tiltReading := Some tiltedUp\<rparr>"
  using angle_conv by (simp add: handleDeviceOrientation_def tiltedUp_def Let_def tilt_trig)

lemma orientation_flat:
  "handleDeviceOrientation 0 0 s = s\<lparr>tiltReading := Some flat\<rparr>"
  by (simp add: handleDeviceOrientation_def flat_def Let_def)

lemma far_from_goal:
  assumes "ballX b \<le> 50 \<or> 250 \<le> ballX b"
  shows "\<not> inGoal (Some b)"
proof -
  have 1: "50 \<le> \<bar>200 - ballX b\<bar>"
    using assms by auto
  have 2: "\<bar>200 - ballX b\<bar> \<le> sqrt ((200 - ballX b)\<^sup>2 + (200 - ballY b)\<^sup>2)"
    by simp
  have "50 \<le> sqrt ((200 - ballX b)\<^sup>2 + (200 - ballY b)\<^sup>2)"
    using 1 2 by (rule order_trans)
  then show ?thesis
    by (simp add: inGoal_def distance2D_def)
qed

lemma frame_running:
  assumes "running i s p T b"
    and "moveBall (accelerationX T * ((t - p) / 16)) (accelerationY T * ((t - p) / 16))
           (frictionX T * ((t - p) / 16)) (frictionY T * ((t - p) / 16)) b = Some b'"
    and "ballX b' \<le> 50 \<or> 250 \<le> ballX b'"
  shows "running i (step s (Frame t)) t T b'"
proof -
  from assms(1) have s: "gameInProgress s" "previousTimestamp s = Some p"
    "tiltReading s = Some T" "i < length (balls s)" "balls s ! i = Some b"
    by (auto simp: running_def)
  have i: "i < length (physics ((t - p) / 16) s)"
    using s(4) by (simp add: length_physics)
  have n: "physics ((t - p) / 16) s ! i = Some b'"
    using s assms(2) by (simp add: nth_physics)
  have "\<not> inGoal (physics ((t - p) / 16) s ! i)"
    unfolding n using assms(3) by (rule far_from_goal)
  then have "\<not> list_all inGoal (physics ((t - p) / 16) s)"
    using i by (auto simp: list_all_length)
  then show ?thesis
    using s i n by (simp add: running_def main_def Let_def)
qed

lemma frame_vanishing:
  assumes "running i s p T b"
    and "moveBall (accelerationX T * ((t - p) / 16)) (accelerationY T * ((t - p) / 16))
           (frictionX T * ((t - p) / 16)) (frictionY T * ((t - p) / 16)) b = None"
  shows "balls (step s (Frame t)) ! i = None"
proof -
  from assms(1) have s: "gameInProgress s" "previousTimestamp s = Some p"
    "tiltReading s = Some T" "i < length (balls s)" "balls s ! i = Some b"
    by (auto simp: running_def)
  have "physics ((t - p) / 16) s ! i = None"
    using s assms(2) by (simp add: nth_physics)
  then show ?thesis
    using s by (simp add: balls_main)
qed

lemma orientation_running:
  assumes "running i s p T b"
    and "handleDeviceOrientation g b0 s = s\<lparr>tiltReading := Some T'\<rparr>"
  shows "running i (step s (Orientation g b0)) p T' b"
  using assms by (simp add: running_def)

lemma run_append: "run s (xs @ ys) = run (run s xs) ys"
  by (simp add: run_def)

lemma frames_Suc: "frames p (Suc n) = frames p n @ [Frame (p + 80 * real (Suc n))]"
  by (simp add: frames_def)

lemma run_frames:
  assumes "running i s p T (f 0)"
    and "\<And>k. k < n \<Longrightarrow>
       moveBall (accelerationX T * 5) (accelerationY T * 5) (frictionX T * 5) (frictionY T * 5)
         (f k) = Some (f (Suc k))"
    and "\<And>k. k \<le> n \<Longrightarrow> ballX (f k) \<le> 50 \<or> 250 \<le> ballX (f k)"
  shows "running i (run s (frames p n)) (p + 80 * real n) T (f n)"
  using assms(2,3)
proof (induction n)
  case 0
  then show ?case
    using assms(1) by (simp add: frames_def run_def)
next
  case (Suc n)
  have ih: "running i (run s (frames p n)) (p + 80 * real n) T (f n)"
    using Suc by simp
  have e: "(p + 80 * real (Suc n) - (p + 80 * real n)) / 16 = 5"
    by simp
  have "running i (step (run s (frames p n)) (Frame (p + 80 * real (Suc n))))
      (p + 80 * real (Suc n)) T (f (Suc n))"
    using Suc.prems(1) [of n] Suc.prems(2) [of "Suc n"]
    by (intro frame_running [OF ih]) (simp_all only: e lessI le_refl)
  then show ?case
    by (simp add: frames_Suc run_append run_def)
qed

lemma turn_running:
  assumes "running i s p T b"
    and "handleDeviceOrientation g b0 s = s\<lparr>tiltReading := Some T'\<rparr>"
    and "moveBall (accelerationX T' * ((t - p) / 16)) (accelerationY T' * ((t - p) / 16))
           (frictionX T' * ((t - p) / 16)) (frictionY T' * ((t - p) / 16)) b = Some b'"
    and "ballX b' \<le> 50 \<or> 250 \<le> ballX b'"
  shows "running i (run s [Orientation g b0, Frame t]) t T' b'"
proof -
  have "running i (step (step s (Orientation g b0)) (Frame t)) t T' b'"
    using orientation_running [OF assms(1,2)] assms(3,4) by (rule frame_running)
  then show ?thesis
    by (simp add: run_def)
qed

lemma started:
  "running 0 (run (resetGame s) [Start, Frame 0, Orientation tiltAngle 0]) 0 tiltedRight
     (rightward 0)"
  "running 1 (run (resetGame s) [Start, Frame 0, Orientation 0 tiltAngle]) 0 tiltedDown
     (descent 0)"
  "running 0 (run (resetGame s) [Start, Frame 0, Orientation 0 tiltAngle]) 0 tiltedDown
     (rightward 0)"
  by (simp_all add: run_def startGame_def resetGame_def main_def orientation_right
      orientation_down running_def startCells_def placeBall_def rightward_def descent_def
      wallWidth_def pathWidth_def)

subsection \<open>The velocity update on a tilted axis\<close>

lemma updateVelocityX_tilted:
  "vc \<noteq> 0 \<Longrightarrow> updateVelocityX vc fd v = tiltedUpdate_spec vc fd v"
  by (simp add: updateVelocityX_def tiltedUpdate_spec_def Let_def max.commute min.commute)

lemma updateVelocityY_tilted:
  "vc \<noteq> 0 \<Longrightarrow> \<bar>fd\<bar> \<le> 1.25 \<Longrightarrow> updateVelocityY vc fd v = tiltedUpdate_spec vc fd v"
  by (auto simp: updateVelocityY_def tiltedUpdate_spec_def Let_def Math_minmax_def
      maxVelocity_def sgn_if min_def max_def)

lemma long_gap_down:
  "moveBall 0 1200 2 1.6 \<lparr>ballX = 20, ballY = 20, velocityX = 0, velocityY = 0\<rparr> =
     Some \<lparr>ballX = 20, ballY = 20.25, velocityX = 0, velocityY = 0.25\<rparr>"
  apply (simp add: moveBall_def moveBallOver_def update_defs walls_eq)
  apply (simp add: hit_defs)
  apply (simp add: commit_def)
  done

lemma long_gap_right:
  "moveBall 1200 0 1.6 2 \<lparr>ballX = 20, ballY = 20, velocityX = 0, velocityY = 0\<rparr> =
     Some \<lparr>ballX = 19.9, ballY = 20, velocityX = - 0.1, velocityY = 0\<rparr>"
  apply (simp add: moveBall_def moveBallOver_def update_defs walls_eq)
  apply (simp add: hit_defs)
  apply (simp add: commit_def)
  done

text \<open>
  C3. The y axis has no clamp to [-1.5, 1.5], and the page gets to a tick on which this
  shows. The game is reset and started, the device is tilted front to back by
  \<open>tiltAngle\<close>, about 46 degrees (the handler sets accelerationY = 0.06 and
  frictionY = 0.00008), and the next frame comes 320 s after the previous one: the
  velocity change is 1200 and the friction delta 1.6. The update of the specification
  gives -0.1; the script leaves the first ball with velocityY = 0.25. With the same tilt
  from left to right, the script leaves it with velocityX = -0.1. Where the friction delta
  is at most 1.25, the y axis agrees with the specification (\<open>updateVelocityY_tilted\<close>).
\<close>

theorem velocityY_not_clamped_to_one_and_a_half:
  "balls (run (resetGame s) [Start, Frame 0, Orientation 0 tiltAngle, Frame 320000]) ! 0 =
     Some \<lparr>ballX = 20, ballY = 20.25, velocityX = 0, velocityY = 0.25\<rparr>
   \<and> tiltReading (run (resetGame s) [Start, Frame 0, Orientation 0 tiltAngle]) = Some tiltedDown
   \<and> updateVelocityY (accelerationY tiltedDown * (320000 / 16))
        (frictionY tiltedDown * (320000 / 16)) 0 = 0.25
   \<and> tiltedUpdate_spec (accelerationY tiltedDown * (320000 / 16))
        (frictionY tiltedDown * (320000 / 16)) 0 = - 0.1
   \<and> balls (run (resetGame s) [Start, Frame 0, Orientation tiltAngle 0, Frame 320000]) ! 0 =
       Some \<lparr>ballX = 19.9, ballY = 20, velocityX = - 0.1, velocityY = 0\<rparr>"
proof -
  have "running 0 (step (run (resetGame s) [Start, Frame 0, Orientation 0 tiltAngle])
      (Frame 320000)) 320000 tiltedDown
      \<lparr>ballX = 20, ballY = 20.25, velocityX = 0, velocityY = 0.25\<rparr>"
    using long_gap_down
    by (intro frame_running [OF started(3)]) (simp_all add: tiltedDown_def rightward_def)
  then have 1: "balls (run (resetGame s) [Start, Frame 0, Orientation 0 tiltAngle, Frame 320000])
      ! 0 = Some \<lparr>ballX = 20, ballY = 20.25, velocityX = 0, velocityY = 0.25\<rparr>"
    by (simp add: run_def running_def)
  have "running 0 (step (run (resetGame s) [Start, Frame 0, Orientation tiltAngle 0])
      (Frame 320000)) 320000 tiltedRight
      \<lparr>ballX = 19.9, ballY = 20, velocityX = - 0.1, velocityY = 0\<rparr>"
    using long_gap_right
    by (intro frame_running [OF started(1)]) (simp_all add: tiltedRight_def rightward_def)
  then have 2: "balls (run (resetGame s) [Start, Frame 0, Orientation tiltAngle 0, Frame 320000])
      ! 0 = Some \<lparr>ballX = 19.9, ballY = 20, velocityX = - 0.1, velocityY = 0\<rparr>"
    by (simp add: run_def running_def)
  have 3: "tiltReading (run (resetGame s) [Start, Frame 0, Orientation 0 tiltAngle]) =
      Some tiltedDown"
    using started(3) [of s] by (simp add: running_def)
  have 4: "updateVelocityY (accelerationY tiltedDown * (320000 / 16))
        (frictionY tiltedDown * (320000 / 16)) 0 = 0.25"
    "tiltedUpdate_spec (accelerationY tiltedDown * (320000 / 16))
        (frictionY tiltedDown * (320000 / 16)) 0 = - 0.1"
    by (simp_all add: updateVelocityY_def tiltedUpdate_spec_def Math_minmax_def
        maxVelocity_def tiltedDown_def)
  show ?thesis
    using 1 2 3 4 by blast
qed

subsection \<open>The first ball reaches the junction at (40, 40)\<close>

lemma corridor_right:
  assumes "20 \<le> x" and "x \<le> 39.75" and "0 \<le> vx" and "vx \<le> 0.25"
  shows "moveBall 0.3 0 0.0004 0.0005
           \<lparr>ballX = x, ballY = 20, velocityX = vx, velocityY = 0\<rparr> =
     Some \<lparr>ballX = x + 0.25, ballY = 20, velocityX = 0.25, velocityY = 0\<rparr>"
proof -
  have acc: "accelerate 0.3 0 0.0004 0.0005
        \<lparr>ballX = x, ballY = 20, velocityX = vx, velocityY = 0\<rparr> =
      \<lparr>ballX = x, ballY = 20, velocityX = 0.25, velocityY = 0,
       nextX = x + 0.25, nextY = 20\<rparr>"
    using assms by (simp add: update_defs)
  have "hitWalls walls
        \<lparr>ballX = x, ballY = 20, velocityX = 0.25, velocityY = 0,
         nextX = x + 0.25, nextY = 20\<rparr> =
      Some \<lparr>ballX = x, ballY = 20, velocityX = 0.25, velocityY = 0,
            nextX = x + 0.25, nextY = 20\<rparr>"
    using assms(1,2)
    apply (simp add: walls_eq)
    apply (simp add: hit_defs cong: if_cong)
    done
  then show ?thesis
    unfolding moveBall_def moveBallOver_def acc by (simp add: commit_def)
qed

lemma corridor_turn:
  "moveBall 0 180 0.3 0.24 \<lparr>ballX = 40, ballY = 20, velocityX = 0.25, velocityY = 0\<rparr> =
     Some \<lparr>ballX = 40, ballY = 20.25, velocityX = 0, velocityY = 0.25\<rparr>"
  apply (simp add: moveBall_def moveBallOver_def update_defs walls_eq)
  apply (simp add: hit_defs)
  apply (simp add: commit_def)
  done

lemma corridor_down:
  assumes "20 \<le> y" and "y \<le> 29.5"
  shows "moveBall 0 0.3 0.0005 0.0004
           \<lparr>ballX = 40, ballY = y, velocityX = 0, velocityY = 0.25\<rparr> =
     Some \<lparr>ballX = 40, ballY = y + 0.25, velocityX = 0, velocityY = 0.25\<rparr>"
proof -
  have acc: "accelerate 0 0.3 0.0005 0.0004
        \<lparr>ballX = 40, ballY = y, velocityX = 0, velocityY = 0.25\<rparr> =
      \<lparr>ballX = 40, ballY = y, velocityX = 0, velocityY = 0.25,
       nextX = 40, nextY = y + 0.25\<rparr>"
    by (simp add: update_defs)
  have "hitWalls walls
        \<lparr>ballX = 40, ballY = y, velocityX = 0, velocityY = 0.25,
         nextX = 40, nextY = y + 0.25\<rparr> =
      Some \<lparr>ballX = 40, ballY = y, velocityX = 0, velocityY = 0.25,
            nextX = 40, nextY = y + 0.25\<rparr>"
    using assms(1,2)
    apply (simp add: walls_eq)
    apply (simp add: hit_defs cong: if_cong)
    done
  then show ?thesis
    unfolding moveBall_def moveBallOver_def acc by (simp add: commit_def)
qed

lemma rightward_step:
  assumes "k < 80"
  shows "moveBall (accelerationX tiltedRight * 5) (accelerationY tiltedRight * 5)
           (frictionX tiltedRight * 5) (frictionY tiltedRight * 5) (rightward k) =
         Some (rightward (Suc k))"
proof -
  have b: "20 \<le> 20 + 0.25 * real k" "20 + 0.25 * real k \<le> 39.75"
    using assms by simp_all
  have v: "0 \<le> (if k = 0 then 0 else 0.25::real)" "(if k = 0 then 0 else 0.25::real) \<le> 0.25"
    by simp_all
  have e: "rightward (Suc k) =
      \<lparr>ballX = 20 + 0.25 * real k + 0.25, ballY = 20, velocityX = 0.25, velocityY = 0\<rparr>"
    by (simp add: rightward_def field_simps)
  have t: "accelerationX tiltedRight * 5 = 0.3" "accelerationY tiltedRight * 5 = 0"
    "frictionX tiltedRight * 5 = 0.0004" "frictionY tiltedRight * 5 = 0.0005"
    by (simp_all add: tiltedRight_def)
  show ?thesis
    unfolding t e unfolding rightward_def by (rule corridor_right [OF b v])
qed

lemma downward_step:
  assumes "k < 38"
  shows "moveBall (accelerationX tiltedDown * 5) (accelerationY tiltedDown * 5)
           (frictionX tiltedDown * 5) (frictionY tiltedDown * 5) (downward k) =
         Some (downward (Suc k))"
proof -
  have b: "20 \<le> 20.25 + 0.25 * real k" "20.25 + 0.25 * real k \<le> 29.5"
    using assms by simp_all
  have e: "downward (Suc k) =
      \<lparr>ballX = 40, ballY = 20.25 + 0.25 * real k + 0.25, velocityX = 0, velocityY = 0.25\<rparr>"
    by (simp add: downward_def field_simps)
  have t: "accelerationX tiltedDown * 5 = 0" "accelerationY tiltedDown * 5 = 0.3"
    "frictionX tiltedDown * 5 = 0.0005" "frictionY tiltedDown * 5 = 0.0004"
    by (simp_all add: tiltedDown_def)
  show ?thesis
    unfolding t e unfolding downward_def by (rule corridor_down [OF b])
qed

lemma reach_sinking: "running 0 (run (resetGame s) sinkingTrace) 57440 tiltedDown sinking"
proof -
  let ?s1 = "run (resetGame s) [Start, Frame 0, Orientation tiltAngle 0]"
  have "running 0 (run ?s1 (frames 0 80)) (0 + 80 * real 80) tiltedRight (rightward 80)"
  proof (rule run_frames [where f = rightward and n = 80, OF started(1)])
    show "moveBall (accelerationX tiltedRight * 5) (accelerationY tiltedRight * 5)
        (frictionX tiltedRight * 5) (frictionY tiltedRight * 5) (rightward k) =
        Some (rightward (Suc k))" if "k < 80" for k
      using that by (rule rightward_step)
    show "ballX (rightward k) \<le> 50 \<or> 250 \<le> ballX (rightward k)" if "k \<le> 80" for k
      using that by (simp add: rightward_def)
  qed
  then have 2: "running 0 (run ?s1 (frames 0 80)) 6400 tiltedRight (rightward 80)"
    by simp
  have 3: "running 0 (run (run ?s1 (frames 0 80)) [Orientation 0 tiltAngle, Frame 54400])
      54400 tiltedDown (downward 0)"
    using corridor_turn
    by (intro turn_running [OF 2 orientation_down])
      (simp_all add: tiltedDown_def rightward_def downward_def)
  have "running 0
      (run (run (run ?s1 (frames 0 80)) [Orientation 0 tiltAngle, Frame 54400])
         (frames 54400 38))
      (54400 + 80 * real 38) tiltedDown (downward 38)"
  proof (rule run_frames [where f = downward and n = 38, OF 3])
    show "moveBall (accelerationX tiltedDown * 5) (accelerationY tiltedDown * 5)
        (frictionX tiltedDown * 5) (frictionY tiltedDown * 5) (downward k) =
        Some (downward (Suc k))" if "k < 38" for k
      using that by (rule downward_step)
    show "ballX (downward k) \<le> 50 \<or> 250 \<le> ballX (downward k)" if "k \<le> 38" for k
      by (simp add: downward_def)
  qed
  moreover have "downward 38 = sinking"
    by (simp add: downward_def sinking_def)
  ultimately show ?thesis
    unfolding sinkingTrace_def run_append by simp
qed

lemma reach_sunk:
  "balls (run (resetGame s) (sinkingTrace @ [Frame 57520])) ! 0 = Some sunk"
proof -
  have "running 0 (step (run (resetGame s) sinkingTrace) (Frame 57520)) 57520 tiltedDown sunk"
    using sinking_tick
    by (intro frame_running [OF reach_sinking]) (simp_all add: tiltedDown_def sunk_def)
  then show ?thesis
    by (simp add: run_append run_def running_def)
qed

subsection \<open>The ball sinks\<close>

text \<open>
  C1. In the run \<open>sinkingTrace\<close> from a reset, the first ball comes to (40, 29.75) with
  velocity (0, 0.25), the ball \<open>sinking\<close>, at a distance of at least 10 from the
  centerline and the cap centers of every wall of the maze. In the next frame, 80 ms
  later, no cap deflection happens: the ball hits the body of the wall from (0, 40) to
  (40, 40) and the body of the wall from (40, 40) to (80, 40), its velocityY is inverted
  twice, and the commit moves it to y = 30 + 0.25/36, at a distance of less than 10 from
  the centerline of both walls.
\<close>

theorem ball_sinks_into_wall_at_junction:
  "balls (run (resetGame s) sinkingTrace) ! 0 = Some sinking
   \<and> balls (run (resetGame s) (sinkingTrace @ [Frame 57520])) ! 0 = Some sunk
   \<and> list_all (\<lambda>w. separated w \<lparr>ptX = ballX sinking, ptY = ballY sinking\<rparr>) walls
   \<and> noCapHits walls (accelerate 0 0.3 0.0005 0.0004 sinking)
   \<and> moveBall 0 0.3 0.0005 0.0004 sinking = Some sunk
   \<and> \<lparr>wallX = 0, wallY = 40, horizontal = True, wallLength = 40\<rparr> \<in> set walls
   \<and> centerlineDistance \<lparr>wallX = 0, wallY = 40, horizontal = True, wallLength = 40\<rparr>
        \<lparr>ptX = ballX sunk, ptY = ballY sunk\<rparr> < wallWidth / 2 + ballSize / 2
   \<and> \<not> separated \<lparr>wallX = 0, wallY = 40, horizontal = True, wallLength = 40\<rparr>
        \<lparr>ptX = ballX sunk, ptY = ballY sunk\<rparr>"
proof -
  have "\<lparr>wallX = 0, wallY = 40, horizontal = True, wallLength = 40\<rparr> \<in> set walls"
    by (simp add: walls_eq)
  moreover have
    "\<not> separated \<lparr>wallX = 0, wallY = 40, horizontal = True, wallLength = 40\<rparr>
        \<lparr>ptX = ballX sunk, ptY = ballY sunk\<rparr>"
    using sunk_too_close by (simp add: separated_def)
  moreover have "balls (run (resetGame s) sinkingTrace) ! 0 = Some sinking"
    using reach_sinking [of s] by (simp add: running_def)
  ultimately show ?thesis
    using sinking_separated sinking_no_cap_hit sinking_tick sunk_too_close reach_sunk
    by blast
qed

subsection \<open>The second ball reaches the junction at (280, 80) and vanishes\<close>

lemma corridor_south:
  assumes "20 \<le> y" and "y \<le> 99.75" and "0 \<le> vy" and "vy \<le> 0.25"
  shows "moveBall 0 0.3 0.0005 0.0004
           \<lparr>ballX = 380, ballY = y, velocityX = 0, velocityY = vy\<rparr> =
     Some \<lparr>ballX = 380, ballY = y + 0.25, velocityX = 0, velocityY = 0.25\<rparr>"
proof -
  have acc: "accelerate 0 0.3 0.0005 0.0004
        \<lparr>ballX = 380, ballY = y, velocityX = 0, velocityY = vy\<rparr> =
      \<lparr>ballX = 380, ballY = y, velocityX = 0, velocityY = 0.25,
       nextX = 380, nextY = y + 0.25\<rparr>"
    using assms by (simp add: update_defs)
  have "hitWalls walls
        \<lparr>ballX = 380, ballY = y, velocityX = 0, velocityY = 0.25,
         nextX = 380, nextY = y + 0.25\<rparr> =
      Some \<lparr>ballX = 380, ballY = y, velocityX = 0, velocityY = 0.25,
            nextX = 380, nextY = y + 0.25\<rparr>"
    using assms(1,2)
    apply (simp add: walls_eq)
    apply (simp add: hit_defs cong: if_cong)
    done
  then show ?thesis
    unfolding moveBall_def moveBallOver_def acc by (simp add: commit_def)
qed

lemma corridor_west:
  assumes "y = 100 \<and> 300.25 \<le> x \<and> x \<le> 380 \<or> y = 80 \<and> 290.5 \<le> x \<and> x \<le> 300"
  shows "moveBall (- 0.3) 0 0.0004 0.0005
           \<lparr>ballX = x, ballY = y, velocityX = - 0.25, velocityY = 0\<rparr> =
     Some \<lparr>ballX = x - 0.25, ballY = y, velocityX = - 0.25, velocityY = 0\<rparr>"
proof -
  have acc: "accelerate (- 0.3) 0 0.0004 0.0005
        \<lparr>ballX = x, ballY = y, velocityX = - 0.25, velocityY = 0\<rparr> =
      \<lparr>ballX = x, ballY = y, velocityX = - 0.25, velocityY = 0,
       nextX = x - 0.25, nextY = y\<rparr>"
    by (simp add: update_defs)
  have "hitWalls walls
        \<lparr>ballX = x, ballY = y, velocityX = - 0.25, velocityY = 0,
         nextX = x - 0.25, nextY = y\<rparr> =
      Some \<lparr>ballX = x, ballY = y, velocityX = - 0.25, velocityY = 0,
            nextX = x - 0.25, nextY = y\<rparr>"
    using assms
  proof (elim disjE conjE)
    assume "y = 100" "300.25 \<le> x" "x \<le> 380"
    then show ?thesis
      apply (simp add: walls_eq)
      apply (simp add: hit_defs cong: if_cong)
      done
  next
    assume "y = 80" "290.5 \<le> x" "x \<le> 300"
    then show ?thesis
      apply (simp add: walls_eq)
      apply (simp add: hit_defs cong: if_cong)
      done
  qed
  then show ?thesis
    unfolding moveBall_def moveBallOver_def acc by (simp add: commit_def)
qed

lemma corridor_north:
  assumes "80.25 \<le> y" and "y \<le> 100"
  shows "moveBall 0 (- 0.3) 0.0005 0.0004
           \<lparr>ballX = 300, ballY = y, velocityX = 0, velocityY = - 0.25\<rparr> =
     Some \<lparr>ballX = 300, ballY = y - 0.25, velocityX = 0, velocityY = - 0.25\<rparr>"
proof -
  have acc: "accelerate 0 (- 0.3) 0.0005 0.0004
        \<lparr>ballX = 300, ballY = y, velocityX = 0, velocityY = - 0.25\<rparr> =
      \<lparr>ballX = 300, ballY = y, velocityX = 0, velocityY = - 0.25,
       nextX = 300, nextY = y - 0.25\<rparr>"
    by (simp add: update_defs)
  have "hitWalls walls
        \<lparr>ballX = 300, ballY = y, velocityX = 0, velocityY = - 0.25,
         nextX = 300, nextY = y - 0.25\<rparr> =
      Some \<lparr>ballX = 300, ballY = y, velocityX = 0, velocityY = - 0.25,
            nextX = 300, nextY = y - 0.25\<rparr>"
    using assms(1,2)
    apply (simp add: walls_eq)
    apply (simp add: hit_defs cong: if_cong)
    done
  then show ?thesis
    unfolding moveBall_def moveBallOver_def acc by (simp add: commit_def)
qed

lemma turn_west:
  assumes "x = 380 \<and> y = 100 \<and> vy = 0.25 \<or> x = 300 \<and> y = 80 \<and> vy = - 0.25"
  shows "moveBall (- 180) 0 0.24 0.3 \<lparr>ballX = x, ballY = y, velocityX = 0, velocityY = vy\<rparr> =
     Some \<lparr>ballX = x - 0.25, ballY = y, velocityX = - 0.25, velocityY = 0\<rparr>"
  using assms
  apply (elim disjE conjE)
  subgoal
  apply (simp add: moveBall_def moveBallOver_def update_defs walls_eq)
  apply (simp add: hit_defs)
  apply (simp add: commit_def)
  done
  subgoal
  apply (simp add: moveBall_def moveBallOver_def update_defs walls_eq)
  apply (simp add: hit_defs)
  apply (simp add: commit_def)
  done
  done

lemma turn_north:
  "moveBall 0 (- 180) 0.3 0.24 \<lparr>ballX = 300, ballY = 100, velocityX = - 0.25, velocityY = 0\<rparr> =
     Some \<lparr>ballX = 300, ballY = 99.75, velocityX = 0, velocityY = - 0.25\<rparr>"
  apply (simp add: moveBall_def moveBallOver_def update_defs walls_eq)
  apply (simp add: hit_defs)
  apply (simp add: commit_def)
  done

lemma overlapping_tick:
  "moveBall (- 0.3) 0 0.0004 0.0005
     \<lparr>ballX = 290.25, ballY = 80, velocityX = - 0.25, velocityY = 0\<rparr> = Some overlapping"
  apply (simp add: moveBall_def moveBallOver_def update_defs walls_eq)
  apply (simp add: hit_defs capTest_def distance2D_def)
  apply (simp add: commit_def overlapping_def)
  done

lemma vanishing_tick: "moveBall 0 0 0.01 0.01 overlapping = None"
  apply (simp add: moveBall_def moveBallOver_def update_defs walls_eq overlapping_def)
  apply (simp add: hit_defs capTest_def distance2D_def sqrt_less_iff closestItCanBe_def
      rollAroundCap_def getAngle_def js_divide_def)
  done

lemma descent_step:
  assumes "k < 320"
  shows "moveBall (accelerationX tiltedDown * 5) (accelerationY tiltedDown * 5)
           (frictionX tiltedDown * 5) (frictionY tiltedDown * 5) (descent k) =
         Some (descent (Suc k))"
proof -
  have b: "20 \<le> 20 + 0.25 * real k" "20 + 0.25 * real k \<le> 99.75"
    using assms by simp_all
  have v: "0 \<le> (if k = 0 then 0 else 0.25::real)" "(if k = 0 then 0 else 0.25::real) \<le> 0.25"
    by simp_all
  have e: "descent (Suc k) =
      \<lparr>ballX = 380, ballY = 20 + 0.25 * real k + 0.25, velocityX = 0, velocityY = 0.25\<rparr>"
    by (simp add: descent_def field_simps)
  have t: "accelerationX tiltedDown * 5 = 0" "accelerationY tiltedDown * 5 = 0.3"
    "frictionX tiltedDown * 5 = 0.0005" "frictionY tiltedDown * 5 = 0.0004"
    by (simp_all add: tiltedDown_def)
  show ?thesis
    unfolding t e unfolding descent_def by (rule corridor_south [OF b v])
qed

lemma westward_step:
  assumes "k < 319"
  shows "moveBall (accelerationX tiltedLeft * 5) (accelerationY tiltedLeft * 5)
           (frictionX tiltedLeft * 5) (frictionY tiltedLeft * 5) (westward k) =
         Some (westward (Suc k))"
proof -
  have b: "(100::real) = 100 \<and> 300.25 \<le> 379.75 - 0.25 * real k \<and> 379.75 - 0.25 * real k \<le> 380
    \<or> (100::real) = 80 \<and> 290.5 \<le> 379.75 - 0.25 * real k \<and> 379.75 - 0.25 * real k \<le> 300"
    using assms by simp
  have e: "westward (Suc k) =
      \<lparr>ballX = 379.75 - 0.25 * real k - 0.25, ballY = 100, velocityX = - 0.25, velocityY = 0\<rparr>"
    by (simp add: westward_def field_simps)
  have t: "accelerationX tiltedLeft * 5 = - 0.3" "accelerationY tiltedLeft * 5 = 0"
    "frictionX tiltedLeft * 5 = 0.0004" "frictionY tiltedLeft * 5 = 0.0005"
    by (simp_all add: tiltedLeft_def)
  show ?thesis
    unfolding t e unfolding westward_def by (rule corridor_west [OF b])
qed

lemma ascent_step:
  assumes "k < 79"
  shows "moveBall (accelerationX tiltedUp * 5) (accelerationY tiltedUp * 5)
           (frictionX tiltedUp * 5) (frictionY tiltedUp * 5) (ascent k) =
         Some (ascent (Suc k))"
proof -
  have b: "80.25 \<le> 99.75 - 0.25 * real k" "99.75 - 0.25 * real k \<le> 100"
    using assms by simp_all
  have e: "ascent (Suc k) =
      \<lparr>ballX = 300, ballY = 99.75 - 0.25 * real k - 0.25, velocityX = 0, velocityY = - 0.25\<rparr>"
    by (simp add: ascent_def field_simps)
  have t: "accelerationX tiltedUp * 5 = 0" "accelerationY tiltedUp * 5 = - 0.3"
    "frictionX tiltedUp * 5 = 0.0005" "frictionY tiltedUp * 5 = 0.0004"
    by (simp_all add: tiltedUp_def)
  show ?thesis
    unfolding t e unfolding ascent_def by (rule corridor_north [OF b])
qed

lemma closing_step:
  assumes "k < 38"
  shows "moveBall (accelerationX tiltedLeft * 5) (accelerationY tiltedLeft * 5)
           (frictionX tiltedLeft * 5) (frictionY tiltedLeft * 5) (closing k) =
         Some (closing (Suc k))"
proof -
  have b: "(80::real) = 100 \<and> 300.25 \<le> 299.75 - 0.25 * real k \<and> 299.75 - 0.25 * real k \<le> 380
    \<or> (80::real) = 80 \<and> 290.5 \<le> 299.75 - 0.25 * real k \<and> 299.75 - 0.25 * real k \<le> 300"
    using assms by simp
  have e: "closing (Suc k) =
      \<lparr>ballX = 299.75 - 0.25 * real k - 0.25, ballY = 80, velocityX = - 0.25, velocityY = 0\<rparr>"
    by (simp add: closing_def field_simps)
  have t: "accelerationX tiltedLeft * 5 = - 0.3" "accelerationY tiltedLeft * 5 = 0"
    "frictionX tiltedLeft * 5 = 0.0004" "frictionY tiltedLeft * 5 = 0.0005"
    by (simp_all add: tiltedLeft_def)
  show ?thesis
    unfolding t e unfolding closing_def by (rule corridor_west [OF b])
qed

lemma reach_overlapping:
  "running 1
     (run (resetGame s)
        ([Start, Frame 0, Orientation 0 tiltAngle] @ frames 0 320 @
         [Orientation (- tiltAngle) 0, Frame 73600] @ frames 73600 319 @
         [Orientation 0 (- tiltAngle), Frame 147120] @ frames 147120 79 @
         [Orientation (- tiltAngle) 0, Frame 201440] @ frames 201440 38 @
         [Frame 204560, Orientation 0 0]))
     204560 flat overlapping"
proof -
  define s1 where "s1 = run (resetGame s) [Start, Frame 0, Orientation 0 tiltAngle]"
  define s2 where "s2 = run s1 (frames 0 320)"
  define s3 where "s3 = run s2 [Orientation (- tiltAngle) 0, Frame 73600]"
  define s4 where "s4 = run s3 (frames 73600 319)"
  define s5 where "s5 = run s4 [Orientation 0 (- tiltAngle), Frame 147120]"
  define s6 where "s6 = run s5 (frames 147120 79)"
  define s7 where "s7 = run s6 [Orientation (- tiltAngle) 0, Frame 201440]"
  define s8 where "s8 = run s7 (frames 201440 38)"
  define s9 where "s9 = step s8 (Frame 204560)"
  have 1: "running 1 s1 0 tiltedDown (descent 0)"
    unfolding s1_def by (rule started(2))
  have "running 1 s2 (0 + 80 * real 320) tiltedDown (descent 320)"
    unfolding s2_def
  proof (rule run_frames [where f = descent and n = 320, OF 1])
    show "moveBall (accelerationX tiltedDown * 5) (accelerationY tiltedDown * 5)
        (frictionX tiltedDown * 5) (frictionY tiltedDown * 5) (descent k) =
        Some (descent (Suc k))" if "k < 320" for k
      using that by (rule descent_step)
    show "ballX (descent k) \<le> 50 \<or> 250 \<le> ballX (descent k)" if "k \<le> 320" for k
      by (simp add: descent_def)
  qed
  then have 2: "running 1 s2 25600 tiltedDown (descent 320)"
    by simp
  have 3: "running 1 s3 73600 tiltedLeft (westward 0)"
    unfolding s3_def using turn_west [of 380 100 "0.25"]
    by (intro turn_running [OF 2 orientation_left])
      (simp_all add: tiltedLeft_def descent_def westward_def)
  have "running 1 s4 (73600 + 80 * real 319) tiltedLeft (westward 319)"
    unfolding s4_def
  proof (rule run_frames [where f = westward and n = 319, OF 3])
    show "moveBall (accelerationX tiltedLeft * 5) (accelerationY tiltedLeft * 5)
        (frictionX tiltedLeft * 5) (frictionY tiltedLeft * 5) (westward k) =
        Some (westward (Suc k))" if "k < 319" for k
      using that by (rule westward_step)
    show "ballX (westward k) \<le> 50 \<or> 250 \<le> ballX (westward k)" if "k \<le> 319" for k
      using that by (simp add: westward_def)
  qed
  then have 4: "running 1 s4 99120 tiltedLeft (westward 319)"
    by simp
  have 5: "running 1 s5 147120 tiltedUp (ascent 0)"
    unfolding s5_def using turn_north
    by (intro turn_running [OF 4 orientation_up])
      (simp_all add: tiltedUp_def westward_def ascent_def)
  have "running 1 s6 (147120 + 80 * real 79) tiltedUp (ascent 79)"
    unfolding s6_def
  proof (rule run_frames [where f = ascent and n = 79, OF 5])
    show "moveBall (accelerationX tiltedUp * 5) (accelerationY tiltedUp * 5)
        (frictionX tiltedUp * 5) (frictionY tiltedUp * 5) (ascent k) =
        Some (ascent (Suc k))" if "k < 79" for k
      using that by (rule ascent_step)
    show "ballX (ascent k) \<le> 50 \<or> 250 \<le> ballX (ascent k)" if "k \<le> 79" for k
      by (simp add: ascent_def)
  qed
  then have 6: "running 1 s6 153440 tiltedUp (ascent 79)"
    by simp
  have 7: "running 1 s7 201440 tiltedLeft (closing 0)"
    unfolding s7_def using turn_west [of 300 80 "- 0.25"]
    by (intro turn_running [OF 6 orientation_left])
      (simp_all add: tiltedLeft_def ascent_def closing_def)
  have "running 1 s8 (201440 + 80 * real 38) tiltedLeft (closing 38)"
    unfolding s8_def
  proof (rule run_frames [where f = closing and n = 38, OF 7])
    show "moveBall (accelerationX tiltedLeft * 5) (accelerationY tiltedLeft * 5)
        (frictionX tiltedLeft * 5) (frictionY tiltedLeft * 5) (closing k) =
        Some (closing (Suc k))" if "k < 38" for k
      using that by (rule closing_step)
    show "ballX (closing k) \<le> 50 \<or> 250 \<le> ballX (closing k)" if "k \<le> 38" for k
      using that by (simp add: closing_def)
  qed
  then have 8: "running 1 s8 204480 tiltedLeft (closing 38)"
    by simp
  have 9: "running 1 s9 204560 tiltedLeft overlapping"
    unfolding s9_def using overlapping_tick
    by (intro frame_running [OF 8]) (simp_all add: tiltedLeft_def closing_def overlapping_def)
  have "running 1 (step s9 (Orientation 0 0)) 204560 flat overlapping"
    using 9 orientation_flat by (rule orientation_running)
  then show ?thesis
    unfolding s9_def s8_def s7_def s6_def s5_def s4_def s3_def s2_def s1_def
    by (simp add: run_append run_def)
qed

lemma reach_vanished: "balls (run (resetGame s) vanishingTrace) ! 1 = None"
proof -
  have "balls (step (run (resetGame s)
        ([Start, Frame 0, Orientation 0 tiltAngle] @ frames 0 320 @
         [Orientation (- tiltAngle) 0, Frame 73600] @ frames 73600 319 @
         [Orientation 0 (- tiltAngle), Frame 147120] @ frames 147120 79 @
         [Orientation (- tiltAngle) 0, Frame 201440] @ frames 201440 38 @
         [Frame 204560, Orientation 0 0])) (Frame 206160)) ! 1 = None"
    using vanishing_tick
    by (intro frame_vanishing [OF reach_overlapping]) (simp add: flat_def)
  then show ?thesis
    by (simp add: vanishingTrace_def run_append run_def)
qed

text \<open>
  C9. On two points that coincide, \<^verbatim>\<open>getAngle\<close> divides 0 by 0 and returns \<^verbatim>\<open>NaN\<close>;
  this is the heading of a ball with velocity (0, 0), on which \<^verbatim>\<open>rollAroundCap\<close>
  returns \<^verbatim>\<open>NaN\<close> for the velocity and the next position. The main loop gets there:
  after the run \<open>vanishingTrace\<close> of the page, from a reset, the second ball has \<^verbatim>\<open>NaN\<close>
  in all its fields.
\<close>

theorem getAngle_of_coincident_points_is_NaN:
  "getAngle \<lparr>ptX = 0, ptY = 0\<rparr> \<lparr>ptX = 0, ptY = 0\<rparr> = None
   \<and> getAngle p p = None
   \<and> rollAroundCap cap \<lparr>ballX = a, ballY = c, velocityX = 0, velocityY = 0\<rparr> = None
   \<and> balls (run (resetGame s) vanishingTrace) ! 1 = None"
proof -
  have "getAngle q q = None" for q
    by (simp add: getAngle_def js_divide_def)
  moreover have
    "rollAroundCap cap \<lparr>ballX = a, ballY = c, velocityX = 0, velocityY = 0\<rparr> = None"
    by (simp add: rollAroundCap_def getAngle_def js_divide_def split: option.splits)
  ultimately show ?thesis
    using reach_vanished [of s] by simp
qed

end
